theory Spec2Isabelle
  imports Main "HOL-Library.Word"
begin

unbundle bit_operations_syntax

section \<open>The IR of the JIT engine (jit\_engine.c)\<close>

text \<open>
  The enums of the engine, constructor for constructor.
\<close>

datatype jit_arch_t = JIT_ARCH_X86_64 | JIT_ARCH_ARM64 | JIT_ARCH_RISCV64

datatype jit_type_t =
  JIT_TYPE_INT32 | JIT_TYPE_INT64 | JIT_TYPE_FLOAT32 | JIT_TYPE_FLOAT64 | JIT_TYPE_PTR

datatype jit_opcode_t =
  JIT_OP_ADD | JIT_OP_SUB | JIT_OP_MUL | JIT_OP_DIV | JIT_OP_MOV | JIT_OP_LOAD |
  JIT_OP_STORE | JIT_OP_BRANCH | JIT_OP_BRANCH_IF | JIT_OP_CALL | JIT_OP_RETURN

text \<open>
  \<^verbatim>\<open>struct jit_value\<close>. The field \<^verbatim>\<open>id\<close> is \<^verbatim>\<open>uint32_t\<close>, \<^verbatim>\<open>constant_value\<close> is
  \<^verbatim>\<open>int64_t\<close>: a 64-bit word, read as two's complement by \<open>sint\<close>. The flag
  \<^verbatim>\<open>is_constant\<close> is only ever written 0 or 1 and only ever tested for non-zero.
\<close>

record jit_value_t =
  value_id :: "32 word"
  value_type :: jit_type_t
  is_constant :: bool
  constant_value :: "64 word"

text \<open>
  \<^verbatim>\<open>struct jit_instruction\<close>. Operands are values held by copy, not by reference. An
  operand the builder does not set keeps the zero bytes \<^verbatim>\<open>calloc\<close> gave it, which is
  \<open>zero_value\<close>. Block pointers are opaque addresses (\<open>None\<close> is \<^verbatim>\<open>NULL\<close>); the
  \<^verbatim>\<open>next\<close> pointer is the order of the list the instruction stands in.
\<close>

definition zero_value :: jit_value_t where
  "zero_value =
     \<lparr>value_id = 0, value_type = JIT_TYPE_INT32, is_constant = False, constant_value = 0\<rparr>"

record jit_instruction_t =
  opcode :: jit_opcode_t
  dest :: jit_value_t
  src1 :: jit_value_t
  src2 :: jit_value_t
  target_block :: "nat option"
  else_block :: "nat option"
  is_live :: bool

text \<open>
  \<^verbatim>\<open>struct jit_block\<close>. The singly linked list from \<^verbatim>\<open>instructions\<close> to
  \<^verbatim>\<open>last_instruction\<close> is the list \<open>instructions\<close>, in program order.
\<close>

record jit_block_t =
  block_id :: "32 word"
  instructions :: "jit_instruction_t list"
  num_instructions :: "32 word"
  visited :: bool

record physical_reg_t =
  virtual_reg :: int
  in_use :: int

record virtual_reg_t =
  physical_reg :: int
  spilled :: int
  start_pos :: int
  end_pos :: int

text \<open>The two table pointers of the allocator are \<open>None\<close> while they are \<^verbatim>\<open>NULL\<close>.\<close>

record reg_allocator_t =
  virtual_regs :: "virtual_reg_t list option"
  physical_regs :: "physical_reg_t list option"
  num_virtual_regs :: int
  num_physical_regs :: int

text \<open>
  \<^verbatim>\<open>struct jit_function\<close>. \<open>blocks\<close> is the chain of blocks that starts at
  \<^verbatim>\<open>entry_block\<close> and follows \<^verbatim>\<open>next\<close> to \<^verbatim>\<open>NULL\<close> (empty when
  \<^verbatim>\<open>entry_block\<close> is \<^verbatim>\<open>NULL\<close>); every pass of the engine walks exactly this chain.
  \<open>current_block\<close> is the position in the chain of the block the builder appends to.
  The builder itself never links a second block: it creates the entry block and leaves the
  cursor on it.
\<close>

record jit_function_t =
  blocks :: "jit_block_t list"
  current_block :: nat
  num_blocks :: "32 word"
  next_ssa_id :: "32 word"
  reg_allocator :: reg_allocator_t

subsection \<open>Values\<close>

text \<open>
  \<^verbatim>\<open>jit_value_create\<close> fills a local struct and leaves \<^verbatim>\<open>constant_value\<close> unwritten;
  \<open>uninit\<close> stands for whatever the stack held there, so that nothing proved below
  depends on it. The SSA counter is \<^verbatim>\<open>uint32_t\<close> and wraps.
\<close>

definition jit_value_create ::
  "jit_function_t \<Rightarrow> jit_type_t \<Rightarrow> 64 word \<Rightarrow> jit_value_t \<times> jit_function_t" where
  "jit_value_create func ty uninit =
     (\<lparr>value_id = next_ssa_id func, value_type = ty, is_constant = False,
       constant_value = uninit\<rparr>,
      func\<lparr>next_ssa_id := next_ssa_id func + 1\<rparr>)"

text \<open>
  \<^verbatim>\<open>jit_value_create_constant\<close> overwrites both fields that \<^verbatim>\<open>jit_value_create\<close> left
  open, so the unwritten word it passes through never shows.
\<close>

definition jit_value_create_constant ::
  "jit_function_t \<Rightarrow> jit_type_t \<Rightarrow> 64 word \<Rightarrow> jit_value_t \<times> jit_function_t" where
  "jit_value_create_constant func ty constant =
     (let (v, func') = jit_value_create func ty constant
      in (v\<lparr>is_constant := True, constant_value := constant\<rparr>, func'))"

subsection \<open>The builder\<close>

text \<open>
  \<^verbatim>\<open>add_instruction\<close> appends to the current block and counts. It dereferences
  \<^verbatim>\<open>func->current_block\<close> without a check: \<open>None\<close> is that dereference of a cursor
  that points at no block.
\<close>

definition add_instruction ::
  "jit_function_t \<Rightarrow> jit_instruction_t \<Rightarrow> jit_function_t option" where
  "add_instruction func inst =
     (if current_block func < length (blocks func)
      then (let block = blocks func ! current_block func
            in Some (func\<lparr>blocks := (blocks func)[current_block func :=
                 block\<lparr>instructions := instructions block @ [inst],
                       num_instructions := num_instructions block + 1\<rparr>]\<rparr>))
      else None)"

text \<open>
  The instruction as \<^verbatim>\<open>calloc\<close> returns it: every field zero. The builder writes
  into it unchecked, so the allocation is taken to succeed.
\<close>

definition calloc_instruction :: jit_instruction_t where
  "calloc_instruction =
     \<lparr>opcode = JIT_OP_ADD, dest = zero_value, src1 = zero_value, src2 = zero_value,
      target_block = None, else_block = None, is_live = False\<rparr>"

definition jit_insn_add ::
  "jit_function_t \<Rightarrow> jit_value_t \<Rightarrow> jit_value_t \<Rightarrow> 64 word \<Rightarrow>
   (jit_value_t \<times> jit_function_t) option" where
  "jit_insn_add func left right uninit =
     (let (result, func') = jit_value_create func (value_type left) uninit;
          inst = calloc_instruction\<lparr>opcode := JIT_OP_ADD, dest := result,
                                    src1 := left, src2 := right\<rparr>
      in map_option (\<lambda>f. (result, f)) (add_instruction func' inst))"

definition jit_insn_sub ::
  "jit_function_t \<Rightarrow> jit_value_t \<Rightarrow> jit_value_t \<Rightarrow> 64 word \<Rightarrow>
   (jit_value_t \<times> jit_function_t) option" where
  "jit_insn_sub func left right uninit =
     (let (result, func') = jit_value_create func (value_type left) uninit;
          inst = calloc_instruction\<lparr>opcode := JIT_OP_SUB, dest := result,
                                    src1 := left, src2 := right\<rparr>
      in map_option (\<lambda>f. (result, f)) (add_instruction func' inst))"

definition jit_insn_mul ::
  "jit_function_t \<Rightarrow> jit_value_t \<Rightarrow> jit_value_t \<Rightarrow> 64 word \<Rightarrow>
   (jit_value_t \<times> jit_function_t) option" where
  "jit_insn_mul func left right uninit =
     (let (result, func') = jit_value_create func (value_type left) uninit;
          inst = calloc_instruction\<lparr>opcode := JIT_OP_MUL, dest := result,
                                    src1 := left, src2 := right\<rparr>
      in map_option (\<lambda>f. (result, f)) (add_instruction func' inst))"

definition jit_insn_load ::
  "jit_function_t \<Rightarrow> jit_value_t \<Rightarrow> 64 word \<Rightarrow> (jit_value_t \<times> jit_function_t) option" where
  "jit_insn_load func address uninit =
     (let (result, func') = jit_value_create func JIT_TYPE_PTR uninit;
          inst = calloc_instruction\<lparr>opcode := JIT_OP_LOAD, dest := result, src1 := address\<rparr>
      in map_option (\<lambda>f. (result, f)) (add_instruction func' inst))"

definition jit_insn_store ::
  "jit_function_t \<Rightarrow> jit_value_t \<Rightarrow> jit_value_t \<Rightarrow> jit_function_t option" where
  "jit_insn_store func address val =
     add_instruction func
       (calloc_instruction\<lparr>opcode := JIT_OP_STORE, src1 := address, src2 := val\<rparr>)"

definition jit_insn_branch :: "jit_function_t \<Rightarrow> nat option \<Rightarrow> jit_function_t option" where
  "jit_insn_branch func target =
     add_instruction func (calloc_instruction\<lparr>opcode := JIT_OP_BRANCH, target_block := target\<rparr>)"

definition jit_insn_branch_if ::
  "jit_function_t \<Rightarrow> jit_value_t \<Rightarrow> nat option \<Rightarrow> nat option \<Rightarrow> jit_function_t option" where
  "jit_insn_branch_if func condition true_block false_block =
     add_instruction func
       (calloc_instruction\<lparr>opcode := JIT_OP_BRANCH_IF, src1 := condition,
                           target_block := true_block, else_block := false_block\<rparr>)"

definition jit_insn_return :: "jit_function_t \<Rightarrow> jit_value_t \<Rightarrow> jit_function_t option" where
  "jit_insn_return func val =
     add_instruction func (calloc_instruction\<lparr>opcode := JIT_OP_RETURN, src1 := val\<rparr>)"

section \<open>The optimisation passes\<close>

subsection \<open>Constant folding\<close>

text \<open>
  The body of the inner loop of \<^verbatim>\<open>constant_folding\<close>, for one instruction. The C adds,
  subtracts and multiplies two \<^verbatim>\<open>int64_t\<close>. Where the exact result does not fit, C
  leaves the operation undefined; the model takes what the compiled code computes on both
  targets, the low 64 bits of the exact result. The new constant draws its id from the
  function's SSA counter; of \<^verbatim>\<open>src2\<close> only the id is zeroed.
\<close>

definition fold_instruction ::
  "jit_function_t \<Rightarrow> jit_instruction_t \<Rightarrow> jit_instruction_t \<times> jit_function_t" where
  "fold_instruction func inst =
     (if is_constant (src1 inst) \<and> is_constant (src2 inst)
      then (let (result, can_fold) =
                  (case opcode inst of
                     JIT_OP_ADD \<Rightarrow> (constant_value (src1 inst) + constant_value (src2 inst), True)
                   | JIT_OP_SUB \<Rightarrow> (constant_value (src1 inst) - constant_value (src2 inst), True)
                   | JIT_OP_MUL \<Rightarrow> (constant_value (src1 inst) * constant_value (src2 inst), True)
                   | _ \<Rightarrow> (0, False))
            in if can_fold
               then (let (c, func') =
                           jit_value_create_constant func (value_type (dest inst)) result
                     in (inst\<lparr>opcode := JIT_OP_MOV, src1 := c,
                              src2 := (src2 inst)\<lparr>value_id := 0\<rparr>\<rparr>, func'))
               else (inst, func))
      else (inst, func))"

fun fold_instructions ::
  "jit_function_t \<Rightarrow> jit_instruction_t list \<Rightarrow> jit_instruction_t list \<times> jit_function_t" where
  "fold_instructions func [] = ([], func)"
| "fold_instructions func (inst # rest) =
     (let (inst', func') = fold_instruction func inst;
          (rest', func'') = fold_instructions func' rest
      in (inst' # rest', func''))"

fun fold_blocks ::
  "jit_function_t \<Rightarrow> jit_block_t list \<Rightarrow> jit_block_t list \<times> jit_function_t" where
  "fold_blocks func [] = ([], func)"
| "fold_blocks func (block # rest) =
     (let (insts', func') = fold_instructions func (instructions block);
          (rest', func'') = fold_blocks func' rest
      in (block\<lparr>instructions := insts'\<rparr> # rest', func''))"

text \<open>
  The walk only ever changes the counter of the function record it threads; the rewritten
  chain is put back at the end.
\<close>

definition constant_folding :: "jit_function_t \<Rightarrow> jit_function_t" where
  "constant_folding func =
     (let (blocks', func') = fold_blocks func (blocks func)
      in func'\<lparr>blocks := blocks'\<rparr>)"

subsection \<open>Dead-code elimination\<close>

text \<open>
  One sweep of \<^verbatim>\<open>eliminate_dead_code\<close> over the instructions of a block, and over the
  chain of blocks. \<open>changed\<close> is the C variable of that name, threaded through the walk.
\<close>

fun dce_instructions ::
  "jit_instruction_t list \<Rightarrow> bool \<Rightarrow> jit_instruction_t list \<times> bool" where
  "dce_instructions [] changed = ([], changed)"
| "dce_instructions (inst # rest) changed =
     (if \<not> is_live inst \<and>
         (opcode inst = JIT_OP_STORE \<or> opcode inst = JIT_OP_RETURN \<or> opcode inst = JIT_OP_CALL)
      then (let (rest', changed') = dce_instructions rest True
            in (inst\<lparr>is_live := True\<rparr> # rest', changed'))
      else (let (rest', changed') = dce_instructions rest changed
            in (inst # rest', changed')))"

fun dce_blocks :: "jit_block_t list \<Rightarrow> bool \<Rightarrow> jit_block_t list \<times> bool" where
  "dce_blocks [] changed = ([], changed)"
| "dce_blocks (block # rest) changed =
     (let (insts', changed') = dce_instructions (instructions block) changed;
          (rest', changed'') = dce_blocks rest changed'
      in (block\<lparr>instructions := insts'\<rparr> # rest', changed''))"

text \<open>
  What a sweep does, instruction by instruction, and when it reports a change: the
  instructions still to be marked are the ones that are not live and have one of the
  three opcodes.
\<close>

definition mark_live :: "jit_instruction_t \<Rightarrow> jit_instruction_t" where
  "mark_live inst =
     (if opcode inst = JIT_OP_STORE \<or> opcode inst = JIT_OP_RETURN \<or> opcode inst = JIT_OP_CALL
      then inst\<lparr>is_live := True\<rparr> else inst)"

definition unmarked :: "jit_instruction_t \<Rightarrow> bool" where
  "unmarked inst \<longleftrightarrow>
     \<not> is_live inst \<and>
     (opcode inst = JIT_OP_STORE \<or> opcode inst = JIT_OP_RETURN \<or> opcode inst = JIT_OP_CALL)"

definition all_instructions :: "jit_block_t list \<Rightarrow> jit_instruction_t list" where
  "all_instructions bs = concat (map instructions bs)"

lemma dce_instructions_eq:
  "dce_instructions insts changed =
     (map mark_live insts, changed \<or> (\<exists>inst \<in> set insts. unmarked inst))"
  by (induction insts arbitrary: changed) (auto simp: mark_live_def unmarked_def)

lemma dce_blocks_eq:
  "dce_blocks bs changed =
     (map (\<lambda>block. block\<lparr>instructions := map mark_live (instructions block)\<rparr>) bs,
      changed \<or> (\<exists>inst \<in> set (all_instructions bs). unmarked inst))"
  by (induction bs arbitrary: changed) (auto simp: dce_instructions_eq all_instructions_def)

lemma unmarked_mark_live [simp]: "\<not> unmarked (mark_live inst)"
  by (simp add: mark_live_def unmarked_def)

lemma no_unmarked_after_sweep:
  "filter unmarked (all_instructions (fst (dce_blocks bs changed))) = []"
  by (auto simp: dce_blocks_eq all_instructions_def filter_empty_conv)

text \<open>
  The outer loop \<^verbatim>\<open>while (changed)\<close>. It ends: a sweep that reports a change leaves no
  instruction to mark, so the next sweep reports none.
\<close>

function dce_loop :: "bool \<Rightarrow> jit_function_t \<Rightarrow> jit_function_t" where
  "dce_loop changed func =
     (if changed
      then (let (blocks', changed') = dce_blocks (blocks func) False
            in dce_loop changed' (func\<lparr>blocks := blocks'\<rparr>))
      else func)"
  by pat_completeness auto
termination
proof (relation "measure (\<lambda>(changed, func).
         length (filter unmarked (all_instructions (blocks func))) + (if changed then 1 else 0))")
  show "wf (measure (\<lambda>(changed, func).
         length (filter unmarked (all_instructions (blocks func))) + (if changed then 1 else 0)))"
    by simp
next
  fix changed :: bool and func :: jit_function_t and x :: "jit_block_t list \<times> bool"
    and blocks' changed'
  assume "changed" and x: "x = dce_blocks (blocks func) False" and xy: "(blocks', changed') = x"
  have none: "filter unmarked (all_instructions blocks') = []"
    using no_unmarked_after_sweep [of "blocks func" False] x xy by (metis fst_conv)
  have c: "changed' \<longleftrightarrow> (\<exists>inst \<in> set (all_instructions (blocks func)). unmarked inst)"
    using x xy by (simp add: dce_blocks_eq)
  have "changed' \<Longrightarrow> 0 < length (filter unmarked (all_instructions (blocks func)))"
    using c by (auto simp: filter_empty_conv)
  then show "((changed', func\<lparr>blocks := blocks'\<rparr>), (changed, func)) \<in>
        measure (\<lambda>(changed, func).
          length (filter unmarked (all_instructions (blocks func))) + (if changed then 1 else 0))"
    using none \<open>changed\<close> by auto
qed

definition eliminate_dead_code :: "jit_function_t \<Rightarrow> jit_function_t" where
  "eliminate_dead_code func = dce_loop True func"

section \<open>Code generation\<close>

text \<open>
  Each generator writes a prologue and then, for every instruction of every block in
  program order, the bytes of the \<^verbatim>\<open>switch\<close> case of its opcode. The model returns
  the bytes in the order the C stores them through \<^verbatim>\<open>*code++\<close>; the caller places them
  at the cursor. \<^verbatim>\<open>*(int64_t*)code = ...\<close> stores the eight bytes of the constant, low
  byte first on the little-endian hosts the engine runs on.
\<close>

definition int64_bytes :: "64 word \<Rightarrow> 8 word list" where
  "int64_bytes w = map (\<lambda>k. ucast (drop_bit (8 * k) w)) [0..<8]"

definition emit_x86_64 :: "jit_instruction_t \<Rightarrow> 8 word list" where
  "emit_x86_64 inst =
     (case opcode inst of
        JIT_OP_ADD \<Rightarrow> [0x48, 0x01, 0xc0]
      | JIT_OP_SUB \<Rightarrow> [0x48, 0x29, 0xc0]
      | JIT_OP_MUL \<Rightarrow> [0x48, 0x0f, 0xaf, 0xc0]
      | JIT_OP_MOV \<Rightarrow>
          (if is_constant (src1 inst)
           then [0x48, 0xb8] @ int64_bytes (constant_value (src1 inst))
           else [0x48, 0x89, 0xc0])
      | JIT_OP_RETURN \<Rightarrow> [0x48, 0x89, 0xec, 0x5d, 0xc3]
      | _ \<Rightarrow> [])"

definition codegen_x86_64 :: "jit_function_t \<Rightarrow> 8 word list" where
  "codegen_x86_64 func =
     [0x55, 0x48, 0x89, 0xe5] @
     concat (map (\<lambda>block. concat (map emit_x86_64 (instructions block))) (blocks func))"

text \<open>The ARM64 generator stores 32-bit instruction words.\<close>

definition emit_arm64 :: "jit_instruction_t \<Rightarrow> 32 word list" where
  "emit_arm64 inst =
     (case opcode inst of
        JIT_OP_ADD \<Rightarrow> [0x8b000000]
      | JIT_OP_SUB \<Rightarrow> [0xcb000000]
      | JIT_OP_MUL \<Rightarrow> [0x9b007c00]
      | JIT_OP_RETURN \<Rightarrow> [0xa8c17bfd, 0xd65f03c0]
      | _ \<Rightarrow> [])"

definition codegen_arm64 :: "jit_function_t \<Rightarrow> 32 word list" where
  "codegen_arm64 func =
     [0xa9bf7bfd, 0x910003fd] @
     concat (map (\<lambda>block. concat (map emit_arm64 (instructions block))) (blocks func))"

definition uint32_bytes :: "32 word \<Rightarrow> 8 word list" where
  "uint32_bytes w = map (\<lambda>k. ucast (drop_bit (8 * k) w)) [0..<4]"

section \<open>The context and compilation\<close>

text \<open>
  \<^verbatim>\<open>jit_context_t\<close>. Addresses are byte offsets from \<^verbatim>\<open>code_cache\<close>, the start of the
  mapping: \<open>code_ptr\<close> is the cursor, \<open>code_mem\<close> the memory as seen from there. The
  mapping is the offsets below \<open>code_cache_size\<close>; an offset at or above it is memory
  the engine does not own.
\<close>

record jit_context_t =
  target_arch :: jit_arch_t
  code_mem :: "nat \<Rightarrow> 8 word"
  code_ptr :: nat
  code_cache_size :: nat
  initialized :: bool

fun write_bytes :: "(nat \<Rightarrow> 8 word) \<Rightarrow> nat \<Rightarrow> 8 word list \<Rightarrow> (nat \<Rightarrow> 8 word)" where
  "write_bytes mem p [] = mem"
| "write_bytes mem p (b # bs) = write_bytes (mem(p := b)) (Suc p) bs"

text \<open>
  \<^verbatim>\<open>jit_function_compile\<close> returns the start of the emitted code, or \<open>None\<close> for
  \<^verbatim>\<open>NULL\<close>. The function argument is \<open>None\<close> when the pointer passed is \<^verbatim>\<open>NULL\<close>. Both
  passes run before the switch on the target, and the cursor moves after it.
\<close>

definition jit_function_compile ::
  "jit_context_t \<Rightarrow> jit_function_t option \<Rightarrow>
   nat option \<times> jit_context_t \<times> jit_function_t option" where
  "jit_function_compile ctx fopt =
     (case fopt of
        None \<Rightarrow> (None, ctx, None)
      | Some func \<Rightarrow>
          if \<not> initialized ctx then (None, ctx, Some func)
          else
            (let func1 = eliminate_dead_code func;
                 func2 = constant_folding func1;
                 code_start = code_ptr ctx
             in case target_arch ctx of
                  JIT_ARCH_X86_64 \<Rightarrow>
                    (let code = codegen_x86_64 func2
                     in (Some code_start,
                         ctx\<lparr>code_mem := write_bytes (code_mem ctx) code_start code,
                             code_ptr := code_start + length code\<rparr>,
                         Some func2))
                | JIT_ARCH_ARM64 \<Rightarrow>
                    (let code = concat (map uint32_bytes (codegen_arm64 func2))
                     in (Some code_start,
                         ctx\<lparr>code_mem := write_bytes (code_mem ctx) code_start code,
                             code_ptr := code_start + length code\<rparr>,
                         Some func2))
                | JIT_ARCH_RISCV64 \<Rightarrow> (None, ctx, Some func2)))"

subsection \<open>Process-wide state, initialisation, creation of blocks and functions\<close>

record arch_info_t =
  arch :: jit_arch_t
  name :: string
  word_size :: "32 word"
  num_registers :: "32 word"
  stack_alignment :: "32 word"
  register_names :: "string list"

definition x86_64_registers :: "string list" where
  "x86_64_registers =
     [''rax'', ''rbx'', ''rcx'', ''rdx'', ''rsi'', ''rdi'', ''rbp'', ''rsp'',
      ''r8'', ''r9'', ''r10'', ''r11'', ''r12'', ''r13'', ''r14'', ''r15'']"

definition arm64_registers :: "string list" where
  "arm64_registers =
     [''x0'', ''x1'', ''x2'', ''x3'', ''x4'', ''x5'', ''x6'', ''x7'',
      ''x8'', ''x9'', ''x10'', ''x11'', ''x12'', ''x13'', ''x14'', ''x15'',
      ''x16'', ''x17'', ''x18'', ''x19'', ''x20'', ''x21'', ''x22'', ''x23'',
      ''x24'', ''x25'', ''x26'', ''x27'', ''x28'', ''x29'', ''x30'', ''sp'']"

definition riscv_registers :: "string list" where
  "riscv_registers =
     [''x0'', ''x1'', ''x2'', ''x3'', ''x4'', ''x5'', ''x6'', ''x7'',
      ''x8'', ''x9'', ''x10'', ''x11'', ''x12'', ''x13'', ''x14'', ''x15'',
      ''x16'', ''x17'', ''x18'', ''x19'', ''x20'', ''x21'', ''x22'', ''x23'',
      ''x24'', ''x25'', ''x26'', ''x27'', ''x28'', ''x29'', ''x30'', ''x31'']"

definition supported_archs :: "arch_info_t list" where
  "supported_archs =
     [\<lparr>arch = JIT_ARCH_X86_64, name = ''x86_64'', word_size = 8, num_registers = 16,
       stack_alignment = 16, register_names = x86_64_registers\<rparr>,
      \<lparr>arch = JIT_ARCH_ARM64, name = ''arm64'', word_size = 8, num_registers = 32,
       stack_alignment = 16, register_names = arm64_registers\<rparr>,
      \<lparr>arch = JIT_ARCH_RISCV64, name = ''riscv64'', word_size = 8, num_registers = 32,
       stack_alignment = 16, register_names = riscv_registers\<rparr>]"

text \<open>
  The three objects with static storage: \<^verbatim>\<open>g_jit_context\<close>, the pointer
  \<^verbatim>\<open>current_arch\<close> into the table, and the counter \<^verbatim>\<open>block_id_counter\<close> declared
  \<^verbatim>\<open>static uint32_t\<close> inside \<^verbatim>\<open>jit_block_create\<close>.
\<close>

record jit_globals =
  g_jit_context :: jit_context_t
  current_arch :: arch_info_t
  block_id_counter :: "32 word"

definition JIT_CODE_CACHE_SIZE :: nat where
  "JIT_CODE_CACHE_SIZE = 1024 * 1024"

definition JIT_SUCCESS :: int where
  "JIT_SUCCESS = 0"

definition JIT_ERROR_MEMORY :: int where
  "JIT_ERROR_MEMORY = - 1"

text \<open>
  \<^verbatim>\<open>jit_init\<close>. \<open>mapping\<close> is what \<^verbatim>\<open>mmap\<close> returned: \<open>None\<close> for
  \<^verbatim>\<open>MAP_FAILED\<close>, otherwise the memory as seen from the address of the new mapping.
  \<^verbatim>\<open>memset\<close> zeroes the context first; the zero of the enum is \<^verbatim>\<open>JIT_ARCH_X86_64\<close>.
\<close>

definition jit_init ::
  "jit_arch_t \<Rightarrow> (nat \<Rightarrow> 8 word) option \<Rightarrow> jit_globals \<Rightarrow> int \<times> jit_globals" where
  "jit_init target mapping g =
     (let ctx0 = \<lparr>target_arch = JIT_ARCH_X86_64, code_mem = code_mem (g_jit_context g),
                  code_ptr = 0, code_cache_size = 0, initialized = False\<rparr>;
          arch' = (case find (\<lambda>a. arch a = target) supported_archs of
                     Some a \<Rightarrow> a | None \<Rightarrow> current_arch g);
          ctx1 = ctx0\<lparr>target_arch := target, code_cache_size := JIT_CODE_CACHE_SIZE\<rparr>
      in case mapping of
           None \<Rightarrow> (JIT_ERROR_MEMORY, g\<lparr>g_jit_context := ctx1, current_arch := arch'\<rparr>)
         | Some mem \<Rightarrow>
             (JIT_SUCCESS,
              g\<lparr>g_jit_context := ctx1\<lparr>code_mem := mem, code_ptr := 0, initialized := True\<rparr>,
                current_arch := arch'\<rparr>))"

text \<open>
  \<^verbatim>\<open>jit_block_create\<close>. \<open>alloc_ok\<close> says whether \<^verbatim>\<open>calloc\<close> returned memory; when it
  did not, the function returns \<^verbatim>\<open>NULL\<close> before it touches the counter.
\<close>

definition jit_block_create :: "bool \<Rightarrow> jit_globals \<Rightarrow> jit_block_t option \<times> jit_globals" where
  "jit_block_create alloc_ok g =
     (if \<not> alloc_ok then (None, g)
      else (Some \<lparr>block_id = block_id_counter g, instructions = [], num_instructions = 0,
                  visited = False\<rparr>,
            g\<lparr>block_id_counter := block_id_counter g + 1\<rparr>))"

text \<open>
  \<^verbatim>\<open>jit_function_create\<close>. The result of \<^verbatim>\<open>jit_block_create\<close> is stored unchecked, so
  a failed block allocation leaves a function whose chain is empty.
\<close>

definition jit_function_create ::
  "bool \<Rightarrow> bool \<Rightarrow> jit_globals \<Rightarrow> jit_function_t option \<times> jit_globals" where
  "jit_function_create func_alloc_ok block_alloc_ok g =
     (if \<not> initialized (g_jit_context g) then (None, g)
      else if \<not> func_alloc_ok then (None, g)
      else (let (entry, g') = jit_block_create block_alloc_ok g
            in (Some \<lparr>blocks = (case entry of None \<Rightarrow> [] | Some block \<Rightarrow> [block]),
                       current_block = 0,
                       num_blocks = 1,
                       next_ssa_id = 1,
                       reg_allocator =
                         \<lparr>virtual_regs = None, physical_regs = None, num_virtual_regs = 0,
                          num_physical_regs = uint (num_registers (current_arch g))\<rparr>\<rparr>,
                g')))"

section \<open>The stand-alone x86-64 compiler (jit\_compiler.c)\<close>

text \<open>
  The repository holds a second, separate JIT program with an IR of its own. Its emitters
  write through \<^verbatim>\<open>jit_emit_byte\<close>, which checks the buffer bound;
  \<^verbatim>\<open>jit_emit_add_reg_reg\<close> encodes the two registers it is given; and
  \<^verbatim>\<open>jit_allocate_registers\<close> hands out registers. The engine above calls none of them.
  \<^verbatim>\<open>x86_register_t\<close> is an enum that counts from \<^verbatim>\<open>RAX = 0\<close>.
\<close>

datatype x86_register_t =
  RAX | RCX | RDX | RBX | RSP | RBP | RSI | RDI | R8 | R9 | R10 | R11 | R12 | R13 | R14 | R15

fun x86_register_value :: "x86_register_t \<Rightarrow> 32 word" where
  "x86_register_value RAX = 0"
| "x86_register_value RCX = 1"
| "x86_register_value RDX = 2"
| "x86_register_value RBX = 3"
| "x86_register_value RSP = 4"
| "x86_register_value RBP = 5"
| "x86_register_value RSI = 6"
| "x86_register_value RDI = 7"
| "x86_register_value R8 = 8"
| "x86_register_value R9 = 9"
| "x86_register_value R10 = 10"
| "x86_register_value R11 = 11"
| "x86_register_value R12 = 12"
| "x86_register_value R13 = 13"
| "x86_register_value R14 = 14"
| "x86_register_value R15 = 15"

datatype ir_opcode_t =
  IR_LOAD | IR_STORE | IR_ADD | IR_SUB | IR_MUL | IR_DIV | IR_CMP | IR_JMP | IR_JE | IR_JNE |
  IR_CALL | IR_RET | IR_PHI | IR_ALLOCA | IR_CAST

text \<open>
  \<^verbatim>\<open>ssa_value_t\<close>. Of the union \<^verbatim>\<open>data\<close> the model keeps the member the allocator
  reads and writes, the \<^verbatim>\<open>int reg\<close>. Instructions hold pointers to values, and two
  instructions may hold the same one: a pointer is an address (\<open>None\<close> for \<^verbatim>\<open>NULL\<close>),
  and the values live in a store from addresses to values that is passed along.
\<close>

record ssa_value_t =
  ssa_id :: int
  ssa_type :: int
  data_reg :: int

record ssa_instruction_t =
  ssa_opcode :: ir_opcode_t
  ssa_dest :: "nat option"
  ssa_src1 :: "nat option"
  ssa_src2 :: "nat option"

text \<open>
  \<^verbatim>\<open>basic_block_t\<close>, without the predecessor and successor arrays, which nothing in
  the program reads or writes.
\<close>

record basic_block_t =
  bb_id :: int
  bb_instructions :: "ssa_instruction_t list"

definition CODE_BUFFER_SIZE :: nat where
  "CODE_BUFFER_SIZE = 4096"

text \<open>
  That program's \<^verbatim>\<open>jit_context_t\<close>: the array of blocks with its count, the buffer of
  \<^verbatim>\<open>CODE_BUFFER_SIZE\<close> bytes with the count of bytes written, and the two counters.
\<close>

record jit_compiler_context_t =
  ctx_blocks :: "basic_block_t list"
  block_count :: int
  code_buffer :: "8 word list"
  code_size :: nat
  ctx_next_ssa_id :: int
  next_reg :: int

text \<open>
  \<^verbatim>\<open>jit_create_context\<close>, with the buffer as \<^verbatim>\<open>mmap\<close> hands it out. The C leaves
  \<^verbatim>\<open>blocks\<close> unset; with a count of 0 nothing reads it.
\<close>

definition jit_create_context :: jit_compiler_context_t where
  "jit_create_context =
     \<lparr>ctx_blocks = [], block_count = 0, code_buffer = replicate CODE_BUFFER_SIZE 0,
      code_size = 0, ctx_next_ssa_id = 0, next_reg = 0\<rparr>"

definition jit_emit_byte :: "jit_compiler_context_t \<Rightarrow> 8 word \<Rightarrow> jit_compiler_context_t" where
  "jit_emit_byte ctx byte =
     (if code_size ctx < CODE_BUFFER_SIZE
      then ctx\<lparr>code_buffer := (code_buffer ctx)[code_size ctx := byte],
               code_size := code_size ctx + 1\<rparr>
      else ctx)"

text \<open>The C computes both bytes in \<^verbatim>\<open>int\<close> and passes them as \<^verbatim>\<open>uint8_t\<close>.\<close>

definition jit_emit_add_reg_reg ::
  "jit_compiler_context_t \<Rightarrow> x86_register_t \<Rightarrow> x86_register_t \<Rightarrow> jit_compiler_context_t" where
  "jit_emit_add_reg_reg ctx dst src =
     (let d = x86_register_value dst;
          s = x86_register_value src;
          ctx1 = jit_emit_byte ctx
                   (ucast (0x48 OR (drop_bit 3 d AND 1) OR push_bit 2 (drop_bit 3 s AND 1)));
          ctx2 = jit_emit_byte ctx1 0x01
      in jit_emit_byte ctx2 (ucast (0xC0 OR push_bit 3 (s AND 7) OR (d AND 7))))"

subsection \<open>Register allocation\<close>

text \<open>
  \<^verbatim>\<open>jit_allocate_registers\<close>. The array \<^verbatim>\<open>available_regs\<close> leaves out \<^verbatim>\<open>RSP\<close> and
  \<^verbatim>\<open>RBP\<close>. \<^verbatim>\<open>ctx->next_reg % reg_count\<close> is C's remainder on \<^verbatim>\<open>int\<close>, which
  takes the sign of the dividend: \<open>c_rem\<close>. \<open>None\<close> stands for the three ways the C leaves
  defined behaviour: a negative index into \<^verbatim>\<open>available_regs\<close>, the increment of
  \<^verbatim>\<open>next_reg\<close> at \<^verbatim>\<open>INT_MAX\<close>, and a \<^verbatim>\<open>block_count\<close> beyond the array of blocks.
\<close>

definition available_regs :: "x86_register_t list" where
  "available_regs = [RAX, RCX, RDX, RBX, RSI, RDI, R8, R9, R10, R11, R12, R13, R14, R15]"

definition reg_count :: int where
  "reg_count = int (length available_regs)"

definition c_rem :: "int \<Rightarrow> int \<Rightarrow> int" where
  "c_rem a b = sgn a * (\<bar>a\<bar> mod \<bar>b\<bar>)"

definition INT_MAX :: int where
  "INT_MAX = 2147483647"

text \<open>The body of the inner loop, on the store of values and the counter.\<close>

definition allocate_instruction ::
  "ssa_instruction_t \<Rightarrow> (nat \<Rightarrow> ssa_value_t) \<times> int \<Rightarrow> ((nat \<Rightarrow> ssa_value_t) \<times> int) option" where
  "allocate_instruction inst s =
     (let (vals, next_reg) = s
      in case ssa_dest inst of
           None \<Rightarrow> Some s
         | Some p \<Rightarrow>
             if data_reg (vals p) = - 1
             then (let i = c_rem next_reg reg_count
                   in if i < 0 \<or> next_reg = INT_MAX then None
                      else Some (vals(p := (vals p)\<lparr>data_reg :=
                                   uint (x86_register_value (available_regs ! nat i))\<rparr>),
                                 next_reg + 1))
             else Some s)"

fun allocate_instructions ::
  "ssa_instruction_t list \<Rightarrow> (nat \<Rightarrow> ssa_value_t) \<times> int \<Rightarrow>
   ((nat \<Rightarrow> ssa_value_t) \<times> int) option" where
  "allocate_instructions [] s = Some s"
| "allocate_instructions (inst # rest) s =
     (case allocate_instruction inst s of
        None \<Rightarrow> None
      | Some s' \<Rightarrow> allocate_instructions rest s')"

fun allocate_blocks ::
  "basic_block_t list \<Rightarrow> (nat \<Rightarrow> ssa_value_t) \<times> int \<Rightarrow>
   ((nat \<Rightarrow> ssa_value_t) \<times> int) option" where
  "allocate_blocks [] s = Some s"
| "allocate_blocks (block # rest) s =
     (case allocate_instructions (bb_instructions block) s of
        None \<Rightarrow> None
      | Some s' \<Rightarrow> allocate_blocks rest s')"

definition jit_allocate_registers ::
  "(nat \<Rightarrow> ssa_value_t) \<Rightarrow> jit_compiler_context_t \<Rightarrow>
   ((nat \<Rightarrow> ssa_value_t) \<times> jit_compiler_context_t) option" where
  "jit_allocate_registers vals ctx =
     (if int (length (ctx_blocks ctx)) < block_count ctx then None
      else case allocate_blocks (take (nat (block_count ctx)) (ctx_blocks ctx))
                  (vals, next_reg ctx) of
             None \<Rightarrow> None
           | Some (vals', next_reg') \<Rightarrow> Some (vals', ctx\<lparr>next_reg := next_reg'\<rparr>))"

section \<open>Example programs\<close>

text \<open>
  The state of a process before its first call into the engine: static storage is zero,
  \<^verbatim>\<open>current_arch\<close> points at the first row of the table.
\<close>

definition process_start :: jit_globals where
  "process_start =
     \<lparr>g_jit_context = \<lparr>target_arch = JIT_ARCH_X86_64, code_mem = (\<lambda>_. 0), code_ptr = 0,
                        code_cache_size = 0, initialized = False\<rparr>,
      current_arch = hd supported_archs,
      block_id_counter = 0\<rparr>"

text \<open>The first function of a process: \<^verbatim>\<open>jit_init\<close>, then \<^verbatim>\<open>jit_function_create\<close>.\<close>

definition new_function :: "jit_arch_t \<Rightarrow> jit_function_t option" where
  "new_function target =
     fst (jit_function_create True True (snd (jit_init target (Some (\<lambda>_. 0)) process_start)))"

text \<open>
  \<open>f() = (3 + 4) * 2\<close>, built from constants through the builder; \<open>u1\<close> and \<open>u2\<close>
  are the unwritten words of the two results.
\<close>

definition build_3_plus_4_times_2 ::
  "jit_function_t \<Rightarrow> 64 word \<Rightarrow> 64 word \<Rightarrow> jit_function_t option" where
  "build_3_plus_4_times_2 func u1 u2 =
     (let (c3, f1) = jit_value_create_constant func JIT_TYPE_INT64 3;
          (c4, f2) = jit_value_create_constant f1 JIT_TYPE_INT64 4
      in case jit_insn_add f2 c3 c4 u1 of
           None \<Rightarrow> None
         | Some (t, f3) \<Rightarrow>
             (let (c2, f4) = jit_value_create_constant f3 JIT_TYPE_INT64 2
              in case jit_insn_mul f4 t c2 u2 of
                   None \<Rightarrow> None
                 | Some (r, f5) \<Rightarrow> jit_insn_return f5 r))"

definition fn_3_plus_4_times_2 :: "64 word \<Rightarrow> 64 word \<Rightarrow> jit_function_t option" where
  "fn_3_plus_4_times_2 u1 u2 =
     (case new_function JIT_ARCH_X86_64 of
        None \<Rightarrow> None
      | Some func \<Rightarrow> build_3_plus_4_times_2 func u1 u2)"

text \<open>\<open>f() = a + c\<close> for two constants, and its IR written out.\<close>

definition fn_add_constants :: "64 word \<Rightarrow> 64 word \<Rightarrow> 64 word \<Rightarrow> jit_function_t option" where
  "fn_add_constants a c u =
     (case new_function JIT_ARCH_X86_64 of
        None \<Rightarrow> None
      | Some func \<Rightarrow>
          (let (ca, f1) = jit_value_create_constant func JIT_TYPE_INT64 a;
               (cc, f2) = jit_value_create_constant f1 JIT_TYPE_INT64 c
           in case jit_insn_add f2 ca cc u of
                None \<Rightarrow> None
              | Some (r, f3) \<Rightarrow> jit_insn_return f3 r))"

definition fn_add_constants_built :: "64 word \<Rightarrow> 64 word \<Rightarrow> 64 word \<Rightarrow> jit_function_t" where
  "fn_add_constants_built a c u =
     \<lparr>blocks =
        [\<lparr>block_id = 0,
          instructions =
            [\<lparr>opcode = JIT_OP_ADD,
              dest = \<lparr>value_id = 3, value_type = JIT_TYPE_INT64, is_constant = False,
                      constant_value = u\<rparr>,
              src1 = \<lparr>value_id = 1, value_type = JIT_TYPE_INT64, is_constant = True,
                      constant_value = a\<rparr>,
              src2 = \<lparr>value_id = 2, value_type = JIT_TYPE_INT64, is_constant = True,
                      constant_value = c\<rparr>,
              target_block = None, else_block = None, is_live = False\<rparr>,
             \<lparr>opcode = JIT_OP_RETURN,
              dest = zero_value,
              src1 = \<lparr>value_id = 3, value_type = JIT_TYPE_INT64, is_constant = False,
                      constant_value = u\<rparr>,
              src2 = zero_value,
              target_block = None, else_block = None, is_live = False\<rparr>],
          num_instructions = 2, visited = False\<rparr>],
      current_block = 0, num_blocks = 1, next_ssa_id = 4,
      reg_allocator =
        \<lparr>virtual_regs = None, physical_regs = None, num_virtual_regs = 0,
         num_physical_regs = 16\<rparr>\<rparr>"

text \<open>\<open>f(a, b) = a + b\<close> on two parameter values, and its IR written out.\<close>

definition fn_add_params :: "64 word \<Rightarrow> 64 word \<Rightarrow> 64 word \<Rightarrow> jit_function_t option" where
  "fn_add_params ua ub ur =
     (case new_function JIT_ARCH_X86_64 of
        None \<Rightarrow> None
      | Some func \<Rightarrow>
          (let (a, f1) = jit_value_create func JIT_TYPE_INT64 ua;
               (b, f2) = jit_value_create f1 JIT_TYPE_INT64 ub
           in case jit_insn_add f2 a b ur of
                None \<Rightarrow> None
              | Some (r, f3) \<Rightarrow> jit_insn_return f3 r))"

definition fn_add_params_built :: "64 word \<Rightarrow> 64 word \<Rightarrow> 64 word \<Rightarrow> jit_function_t" where
  "fn_add_params_built ua ub ur =
     \<lparr>blocks =
        [\<lparr>block_id = 0,
          instructions =
            [\<lparr>opcode = JIT_OP_ADD,
              dest = \<lparr>value_id = 3, value_type = JIT_TYPE_INT64, is_constant = False,
                      constant_value = ur\<rparr>,
              src1 = \<lparr>value_id = 1, value_type = JIT_TYPE_INT64, is_constant = False,
                      constant_value = ua\<rparr>,
              src2 = \<lparr>value_id = 2, value_type = JIT_TYPE_INT64, is_constant = False,
                      constant_value = ub\<rparr>,
              target_block = None, else_block = None, is_live = False\<rparr>,
             \<lparr>opcode = JIT_OP_RETURN,
              dest = zero_value,
              src1 = \<lparr>value_id = 3, value_type = JIT_TYPE_INT64, is_constant = False,
                      constant_value = ur\<rparr>,
              src2 = zero_value,
              target_block = None, else_block = None, is_live = False\<rparr>],
          num_instructions = 2, visited = False\<rparr>],
      current_block = 0, num_blocks = 1, next_ssa_id = 4,
      reg_allocator =
        \<lparr>virtual_regs = None, physical_regs = None, num_virtual_regs = 0,
         num_physical_regs = 16\<rparr>\<rparr>"

text \<open>The same function once dead-code elimination has run on it.\<close>

definition settled_add :: jit_function_t where
  "settled_add = eliminate_dead_code (fn_add_params_built 0 0 0)"

text \<open>\<open>f() = 3 + 4\<close> after both passes.\<close>

definition folded_add_constants :: jit_function_t where
  "folded_add_constants =
     \<lparr>blocks =
        [\<lparr>block_id = 0,
          instructions =
            [\<lparr>opcode = JIT_OP_MOV,
              dest = \<lparr>value_id = 3, value_type = JIT_TYPE_INT64, is_constant = False,
                      constant_value = 0\<rparr>,
              src1 = \<lparr>value_id = 4, value_type = JIT_TYPE_INT64, is_constant = True,
                      constant_value = 7\<rparr>,
              src2 = \<lparr>value_id = 0, value_type = JIT_TYPE_INT64, is_constant = True,
                      constant_value = 4\<rparr>,
              target_block = None, else_block = None, is_live = False\<rparr>,
             \<lparr>opcode = JIT_OP_RETURN,
              dest = zero_value,
              src1 = \<lparr>value_id = 3, value_type = JIT_TYPE_INT64, is_constant = False,
                      constant_value = 0\<rparr>,
              src2 = zero_value,
              target_block = None, else_block = None, is_live = True\<rparr>],
          num_instructions = 2, visited = False\<rparr>],
      current_block = 0, num_blocks = 1, next_ssa_id = 5,
      reg_allocator =
        \<lparr>virtual_regs = None, physical_regs = None, num_virtual_regs = 0,
         num_physical_regs = 16\<rparr>\<rparr>"

text \<open>A function whose only instruction is a store.\<close>

definition fn_store :: "64 word \<Rightarrow> 64 word \<Rightarrow> jit_function_t option" where
  "fn_store ua uv =
     (case new_function JIT_ARCH_X86_64 of
        None \<Rightarrow> None
      | Some func \<Rightarrow>
          (let (a, f1) = jit_value_create func JIT_TYPE_PTR ua;
               (v, f2) = jit_value_create f1 JIT_TYPE_INT64 uv
           in jit_insn_store f2 a v))"

definition fn_store_built :: "64 word \<Rightarrow> 64 word \<Rightarrow> jit_function_t" where
  "fn_store_built ua uv =
     \<lparr>blocks =
        [\<lparr>block_id = 0,
          instructions =
            [\<lparr>opcode = JIT_OP_STORE,
              dest = zero_value,
              src1 = \<lparr>value_id = 1, value_type = JIT_TYPE_PTR, is_constant = False,
                      constant_value = ua\<rparr>,
              src2 = \<lparr>value_id = 2, value_type = JIT_TYPE_INT64, is_constant = False,
                      constant_value = uv\<rparr>,
              target_block = None, else_block = None, is_live = False\<rparr>],
          num_instructions = 1, visited = False\<rparr>],
      current_block = 0, num_blocks = 1, next_ssa_id = 3,
      reg_allocator =
        \<lparr>virtual_regs = None, physical_regs = None, num_virtual_regs = 0,
         num_physical_regs = 16\<rparr>\<rparr>"

text \<open>
  The context of a process right after \<^verbatim>\<open>jit_init\<close>, and a function compiled over and
  over in one context (the C mutates the function in place, so each call sees what the
  last one left).
\<close>

definition context_after_init :: "jit_arch_t \<Rightarrow> jit_context_t" where
  "context_after_init target =
     g_jit_context (snd (jit_init target (Some (\<lambda>_. 0)) process_start))"

fun compile_times ::
  "nat \<Rightarrow> jit_context_t \<times> jit_function_t option \<Rightarrow> jit_context_t \<times> jit_function_t option" where
  "compile_times 0 s = s"
| "compile_times (Suc n) s = compile_times n (snd (jit_function_compile (fst s) (snd s)))"

text \<open>\<open>f() = (3 + 4) * 2\<close> as the builder leaves it, and after both passes.\<close>

definition fn_3_plus_4_times_2_built :: "64 word \<Rightarrow> 64 word \<Rightarrow> jit_function_t" where
  "fn_3_plus_4_times_2_built u1 u2 =
     \<lparr>blocks =
        [\<lparr>block_id = 0,
          instructions =
            [\<lparr>opcode = JIT_OP_ADD,
              dest = \<lparr>value_id = 3, value_type = JIT_TYPE_INT64, is_constant = False,
                      constant_value = u1\<rparr>,
              src1 = \<lparr>value_id = 1, value_type = JIT_TYPE_INT64, is_constant = True,
                      constant_value = 3\<rparr>,
              src2 = \<lparr>value_id = 2, value_type = JIT_TYPE_INT64, is_constant = True,
                      constant_value = 4\<rparr>,
              target_block = None, else_block = None, is_live = False\<rparr>,
             \<lparr>opcode = JIT_OP_MUL,
              dest = \<lparr>value_id = 5, value_type = JIT_TYPE_INT64, is_constant = False,
                      constant_value = u2\<rparr>,
              src1 = \<lparr>value_id = 3, value_type = JIT_TYPE_INT64, is_constant = False,
                      constant_value = u1\<rparr>,
              src2 = \<lparr>value_id = 4, value_type = JIT_TYPE_INT64, is_constant = True,
                      constant_value = 2\<rparr>,
              target_block = None, else_block = None, is_live = False\<rparr>,
             \<lparr>opcode = JIT_OP_RETURN,
              dest = zero_value,
              src1 = \<lparr>value_id = 5, value_type = JIT_TYPE_INT64, is_constant = False,
                      constant_value = u2\<rparr>,
              src2 = zero_value,
              target_block = None, else_block = None, is_live = False\<rparr>],
          num_instructions = 3, visited = False\<rparr>],
      current_block = 0, num_blocks = 1, next_ssa_id = 6,
      reg_allocator =
        \<lparr>virtual_regs = None, physical_regs = None, num_virtual_regs = 0,
         num_physical_regs = 16\<rparr>\<rparr>"

definition folded_3_plus_4_times_2 :: "64 word \<Rightarrow> 64 word \<Rightarrow> jit_function_t" where
  "folded_3_plus_4_times_2 u1 u2 =
     \<lparr>blocks =
        [\<lparr>block_id = 0,
          instructions =
            [\<lparr>opcode = JIT_OP_MOV,
              dest = \<lparr>value_id = 3, value_type = JIT_TYPE_INT64, is_constant = False,
                      constant_value = u1\<rparr>,
              src1 = \<lparr>value_id = 6, value_type = JIT_TYPE_INT64, is_constant = True,
                      constant_value = 7\<rparr>,
              src2 = \<lparr>value_id = 0, value_type = JIT_TYPE_INT64, is_constant = True,
                      constant_value = 4\<rparr>,
              target_block = None, else_block = None, is_live = False\<rparr>,
             \<lparr>opcode = JIT_OP_MUL,
              dest = \<lparr>value_id = 5, value_type = JIT_TYPE_INT64, is_constant = False,
                      constant_value = u2\<rparr>,
              src1 = \<lparr>value_id = 3, value_type = JIT_TYPE_INT64, is_constant = False,
                      constant_value = u1\<rparr>,
              src2 = \<lparr>value_id = 4, value_type = JIT_TYPE_INT64, is_constant = True,
                      constant_value = 2\<rparr>,
              target_block = None, else_block = None, is_live = False\<rparr>,
             \<lparr>opcode = JIT_OP_RETURN,
              dest = zero_value,
              src1 = \<lparr>value_id = 5, value_type = JIT_TYPE_INT64, is_constant = False,
                      constant_value = u2\<rparr>,
              src2 = zero_value,
              target_block = None, else_block = None, is_live = True\<rparr>],
          num_instructions = 3, visited = False\<rparr>],
      current_block = 0, num_blocks = 1, next_ssa_id = 7,
      reg_allocator =
        \<lparr>virtual_regs = None, physical_regs = None, num_virtual_regs = 0,
         num_physical_regs = 16\<rparr>\<rparr>"

text \<open>Two additions on four different parameter values.\<close>

definition add_v1_v2 :: jit_instruction_t where
  "add_v1_v2 =
     \<lparr>opcode = JIT_OP_ADD,
      dest = \<lparr>value_id = 5, value_type = JIT_TYPE_INT64, is_constant = False, constant_value = 0\<rparr>,
      src1 = \<lparr>value_id = 1, value_type = JIT_TYPE_INT64, is_constant = False, constant_value = 0\<rparr>,
      src2 = \<lparr>value_id = 2, value_type = JIT_TYPE_INT64, is_constant = False, constant_value = 0\<rparr>,
      target_block = None, else_block = None, is_live = False\<rparr>"

definition add_v3_v4 :: jit_instruction_t where
  "add_v3_v4 =
     \<lparr>opcode = JIT_OP_ADD,
      dest = \<lparr>value_id = 6, value_type = JIT_TYPE_INT64, is_constant = False, constant_value = 0\<rparr>,
      src1 = \<lparr>value_id = 3, value_type = JIT_TYPE_INT64, is_constant = False, constant_value = 0\<rparr>,
      src2 = \<lparr>value_id = 4, value_type = JIT_TYPE_INT64, is_constant = False, constant_value = 0\<rparr>,
      target_block = None, else_block = None, is_live = False\<rparr>"

definition fn_two_adds :: "jit_function_t option" where
  "fn_two_adds =
     (case new_function JIT_ARCH_X86_64 of
        None \<Rightarrow> None
      | Some func \<Rightarrow>
          (let (a, f1) = jit_value_create func JIT_TYPE_INT64 0;
               (b, f2) = jit_value_create f1 JIT_TYPE_INT64 0;
               (c, f3) = jit_value_create f2 JIT_TYPE_INT64 0;
               (d, f4) = jit_value_create f3 JIT_TYPE_INT64 0
           in case jit_insn_add f4 a b 0 of
                None \<Rightarrow> None
              | Some (r, f5) \<Rightarrow> map_option snd (jit_insn_add f5 c d 0)))"

definition fn_two_adds_built :: jit_function_t where
  "fn_two_adds_built =
     \<lparr>blocks =
        [\<lparr>block_id = 0, instructions = [add_v1_v2, add_v3_v4], num_instructions = 2,
          visited = False\<rparr>],
      current_block = 0, num_blocks = 1, next_ssa_id = 7,
      reg_allocator =
        \<lparr>virtual_regs = None, physical_regs = None, num_virtual_regs = 0,
         num_physical_regs = 16\<rparr>\<rparr>"

text \<open>
  For the allocator: a store in which no value has a register yet, and a context whose one
  block adds twice and returns, with the counter one short of the end of the register
  list.
\<close>

definition values_unassigned :: "nat \<Rightarrow> ssa_value_t" where
  "values_unassigned = (\<lambda>_. \<lparr>ssa_id = 0, ssa_type = 0, data_reg = - 1\<rparr>)"

definition context_two_adds :: jit_compiler_context_t where
  "context_two_adds =
     \<lparr>ctx_blocks =
        [\<lparr>bb_id = 0,
          bb_instructions =
            [\<lparr>ssa_opcode = IR_ADD, ssa_dest = Some 2, ssa_src1 = Some 0, ssa_src2 = Some 1\<rparr>,
             \<lparr>ssa_opcode = IR_ADD, ssa_dest = Some 3, ssa_src1 = Some 2, ssa_src2 = Some 2\<rparr>,
             \<lparr>ssa_opcode = IR_RET, ssa_dest = None, ssa_src1 = Some 3, ssa_src2 = None\<rparr>]\<rparr>],
      block_count = 1, code_buffer = replicate CODE_BUFFER_SIZE 0, code_size = 0,
      ctx_next_ssa_id = 4, next_reg = 13\<rparr>"

text \<open>
  A run of a process: calls that initialise the engine and create blocks and functions,
  with the outcome of each allocation. \<open>created_block_ids\<close> lists the ids of the blocks
  the run creates, in the order of creation; the entry block of a function is one of them.
\<close>

datatype engine_call =
  Call_jit_init jit_arch_t bool
| Call_jit_block_create bool
| Call_jit_function_create bool bool

fun created_block_ids :: "engine_call list \<Rightarrow> jit_globals \<Rightarrow> 32 word list" where
  "created_block_ids [] g = []"
| "created_block_ids (Call_jit_init target mmap_ok # calls) g =
     created_block_ids calls
       (snd (jit_init target (if mmap_ok then Some (\<lambda>_. 0) else None) g))"
| "created_block_ids (Call_jit_block_create alloc_ok # calls) g =
     (case jit_block_create alloc_ok g of
        (None, g') \<Rightarrow> created_block_ids calls g'
      | (Some block, g') \<Rightarrow> block_id block # created_block_ids calls g')"
| "created_block_ids (Call_jit_function_create func_alloc_ok block_alloc_ok # calls) g =
     (case jit_function_create func_alloc_ok block_alloc_ok g of
        (None, g') \<Rightarrow> created_block_ids calls g'
      | (Some func, g') \<Rightarrow> map block_id (blocks func) @ created_block_ids calls g')"

section \<open>Facts about the passes\<close>

subsection \<open>Dead-code elimination in closed form\<close>

definition sweep_blocks :: "jit_block_t list \<Rightarrow> jit_block_t list" where
  "sweep_blocks bs =
     map (\<lambda>block. block\<lparr>instructions := map mark_live (instructions block)\<rparr>) bs"

lemma mark_live_idem [simp]: "mark_live (mark_live inst) = mark_live inst"
  by (simp add: mark_live_def)

lemma sweep_blocks_idem [simp]: "sweep_blocks (sweep_blocks bs) = sweep_blocks bs"
  by (simp add: sweep_blocks_def comp_def)

lemma dce_blocks_sweep:
  "dce_blocks bs changed =
     (sweep_blocks bs, changed \<or> (\<exists>inst \<in> set (all_instructions bs). unmarked inst))"
  by (simp add: dce_blocks_eq sweep_blocks_def)

lemma all_swept_marked:
  "inst \<in> set (all_instructions (sweep_blocks bs)) \<Longrightarrow> \<not> unmarked inst"
  by (auto simp: all_instructions_def sweep_blocks_def)

lemma dce_loop_False [simp]: "dce_loop False func = func"
  by (subst dce_loop.simps) simp

lemma dce_loop_settled:
  assumes "\<forall>inst \<in> set (all_instructions (blocks func)). \<not> unmarked inst"
  shows "dce_loop True func = func\<lparr>blocks := sweep_blocks (blocks func)\<rparr>"
  using assms by (subst dce_loop.simps) (simp add: dce_blocks_sweep)

text \<open>
  The loop runs one or two sweeps, and the second changes nothing: the pass is one sweep.
\<close>

lemma eliminate_dead_code_eq:
  "eliminate_dead_code func = func\<lparr>blocks := sweep_blocks (blocks func)\<rparr>"
proof -
  let ?f1 = "func\<lparr>blocks := sweep_blocks (blocks func)\<rparr>"
  have settled: "\<forall>inst \<in> set (all_instructions (blocks ?f1)). \<not> unmarked inst"
    using all_swept_marked by simp
  have "dce_loop True func =
        dce_loop (\<exists>inst \<in> set (all_instructions (blocks func)). unmarked inst) ?f1"
    by (subst dce_loop.simps) (simp add: dce_blocks_sweep)
  also have "\<dots> = ?f1"
  proof (cases "\<exists>inst \<in> set (all_instructions (blocks func)). unmarked inst")
    case True
    then show ?thesis
      using dce_loop_settled [OF settled] by simp
  next
    case False
    then show ?thesis by simp
  qed
  finally show ?thesis
    by (simp add: eliminate_dead_code_def)
qed

subsection \<open>Constant folding, instruction by instruction\<close>

text \<open>
  \<open>foldable\<close> is the condition under which the C reaches the rewrite: both operands
  constant and the \<^verbatim>\<open>switch\<close> in one of its three arithmetic cases.
\<close>

definition foldable :: "jit_instruction_t \<Rightarrow> bool" where
  "foldable inst \<longleftrightarrow>
     is_constant (src1 inst) \<and> is_constant (src2 inst) \<and>
     (opcode inst = JIT_OP_ADD \<or> opcode inst = JIT_OP_SUB \<or> opcode inst = JIT_OP_MUL)"

definition folded_constant :: "jit_instruction_t \<Rightarrow> 64 word" where
  "folded_constant inst =
     (case opcode inst of
        JIT_OP_ADD \<Rightarrow> constant_value (src1 inst) + constant_value (src2 inst)
      | JIT_OP_SUB \<Rightarrow> constant_value (src1 inst) - constant_value (src2 inst)
      | _ \<Rightarrow> constant_value (src1 inst) * constant_value (src2 inst))"

text \<open>The instructions that precede instruction \<open>i\<close> of block \<open>b\<close> in program order.\<close>

definition instructions_before :: "jit_function_t \<Rightarrow> nat \<Rightarrow> nat \<Rightarrow> jit_instruction_t list" where
  "instructions_before func b i =
     all_instructions (take b (blocks func)) @ take i (instructions (blocks func ! b))"

definition bump_ssa :: "nat \<Rightarrow> jit_function_t \<Rightarrow> jit_function_t" where
  "bump_ssa k func = func\<lparr>next_ssa_id := next_ssa_id func + of_nat k\<rparr>"

lemma bump_ssa_0 [simp]: "bump_ssa 0 func = func"
  by (simp add: bump_ssa_def)

lemma bump_ssa_bump [simp]: "bump_ssa k (bump_ssa j func) = bump_ssa (j + k) func"
  by (simp add: bump_ssa_def add.assoc)

lemma fold_instruction_eq:
  "fold_instruction func inst =
     (if foldable inst
      then (inst\<lparr>opcode := JIT_OP_MOV,
                 src1 := \<lparr>value_id = next_ssa_id func, value_type = value_type (dest inst),
                          is_constant = True, constant_value = folded_constant inst\<rparr>,
                 src2 := (src2 inst)\<lparr>value_id := 0\<rparr>\<rparr>,
            func\<lparr>next_ssa_id := next_ssa_id func + 1\<rparr>)
      else (inst, func))"
  by (cases "opcode inst")
     (simp_all add: fold_instruction_def foldable_def folded_constant_def
        jit_value_create_constant_def jit_value_create_def)

lemma snd_fold_instruction:
  "snd (fold_instruction func inst) = bump_ssa (if foldable inst then 1 else 0) func"
  by (simp add: fold_instruction_eq bump_ssa_def)

lemma snd_fold_instructions:
  "snd (fold_instructions func insts) = bump_ssa (length (filter foldable insts)) func"
proof (induction insts arbitrary: func)
  case Nil
  show ?case by simp
next
  case (Cons inst rest)
  have "snd (fold_instructions func (inst # rest)) =
        snd (fold_instructions (snd (fold_instruction func inst)) rest)"
    by (simp add: split_beta)
  also have "\<dots> = bump_ssa (length (filter foldable rest)) (snd (fold_instruction func inst))"
    by (rule Cons.IH)
  finally show ?case
    by (simp add: snd_fold_instruction)
qed

lemma length_fold_instructions [simp]:
  "length (fst (fold_instructions func insts)) = length insts"
  by (induction insts arbitrary: func) (simp_all add: split_beta)

lemma nth_fold_instructions:
  "i < length insts \<Longrightarrow>
   fst (fold_instructions func insts) ! i =
   fst (fold_instruction (bump_ssa (length (filter foldable (take i insts))) func) (insts ! i))"
proof (induction insts arbitrary: func i)
  case Nil
  then show ?case by simp
next
  case (Cons inst rest)
  show ?case
  proof (cases i)
    case 0
    then show ?thesis by (simp add: split_beta)
  next
    case (Suc j)
    with Cons.prems have j: "j < length rest" by simp
    have "fst (fold_instructions func (inst # rest)) ! i =
          fst (fold_instructions (snd (fold_instruction func inst)) rest) ! j"
      using Suc by (simp add: split_beta)
    also have "\<dots> = fst (fold_instruction
                 (bump_ssa (length (filter foldable (take j rest)))
                    (snd (fold_instruction func inst))) (rest ! j))"
      by (rule Cons.IH [OF j])
    finally show ?thesis
      using Suc by (simp add: snd_fold_instruction)
  qed
qed

lemma snd_fold_blocks:
  "snd (fold_blocks func bs) = bump_ssa (length (filter foldable (all_instructions bs))) func"
proof (induction bs arbitrary: func)
  case Nil
  show ?case by (simp add: all_instructions_def)
next
  case (Cons b rest)
  have "snd (fold_blocks func (b # rest)) =
        snd (fold_blocks (snd (fold_instructions func (instructions b))) rest)"
    by (simp add: split_beta)
  then show ?case
    by (simp add: Cons.IH snd_fold_instructions all_instructions_def)
qed

lemma length_fold_blocks [simp]: "length (fst (fold_blocks func bs)) = length bs"
  by (induction bs arbitrary: func) (simp_all add: split_beta)

lemma nth_fold_blocks:
  "b < length bs \<Longrightarrow>
   fst (fold_blocks func bs) ! b =
   (bs ! b)\<lparr>instructions :=
      fst (fold_instructions
             (bump_ssa (length (filter foldable (all_instructions (take b bs)))) func)
             (instructions (bs ! b)))\<rparr>"
proof (induction bs arbitrary: func b)
  case Nil
  then show ?case by simp
next
  case (Cons blk rest)
  show ?case
  proof (cases b)
    case 0
    then show ?thesis by (simp add: split_beta all_instructions_def)
  next
    case (Suc j)
    with Cons.prems have j: "j < length rest" by simp
    have "fst (fold_blocks func (blk # rest)) ! b =
          fst (fold_blocks (snd (fold_instructions func (instructions blk))) rest) ! j"
      using Suc by (simp add: split_beta)
    then show ?thesis
      using Suc by (simp add: Cons.IH [OF j] snd_fold_instructions all_instructions_def)
  qed
qed

lemma blocks_constant_folding:
  "blocks (constant_folding func) = fst (fold_blocks func (blocks func))"
  by (simp add: constant_folding_def split_beta)

lemma constant_folding_rest:
  "constant_folding func =
     func\<lparr>blocks := fst (fold_blocks func (blocks func)),
          next_ssa_id := next_ssa_id func +
            of_nat (length (filter foldable (all_instructions (blocks func))))\<rparr>"
  by (simp add: constant_folding_def split_beta snd_fold_blocks bump_ssa_def)

lemma nth_constant_folding:
  assumes "b < length (blocks func)" and "i < length (instructions (blocks func ! b))"
  shows "instructions (blocks (constant_folding func) ! b) ! i =
         (let inst = instructions (blocks func ! b) ! i
          in if foldable inst
             then inst\<lparr>opcode := JIT_OP_MOV,
                       src1 := \<lparr>value_id = next_ssa_id func +
                                   of_nat (length (filter foldable (instructions_before func b i))),
                                value_type = value_type (dest inst),
                                is_constant = True,
                                constant_value = folded_constant inst\<rparr>,
                       src2 := (src2 inst)\<lparr>value_id := 0\<rparr>\<rparr>
             else inst)"
  using assms
  by (simp add: blocks_constant_folding nth_fold_blocks nth_fold_instructions
      fold_instruction_eq bump_ssa_def instructions_before_def Let_def add.assoc)

text \<open>The signed reading of the three results: the sum, difference or product of the signed
  operands, reduced into the range of \<^verbatim>\<open>int64_t\<close>.\<close>

lemma sint_add64: "sint (a + c :: 64 word) = (sint a + sint c + 2 ^ 63) mod 2 ^ 64 - 2 ^ 63"
  by (simp add: sint_word_ariths signed_take_bit_eq_take_bit_shift take_bit_eq_mod)

lemma sint_sub64: "sint (a - c :: 64 word) = (sint a - sint c + 2 ^ 63) mod 2 ^ 64 - 2 ^ 63"
  by (simp add: sint_word_ariths signed_take_bit_eq_take_bit_shift take_bit_eq_mod)

lemma sint_mul64: "sint (a * c :: 64 word) = (sint a * sint c + 2 ^ 63) mod 2 ^ 64 - 2 ^ 63"
  by (simp add: sint_word_ariths signed_take_bit_eq_take_bit_shift take_bit_eq_mod)

subsection \<open>The example programs, evaluated\<close>

lemma new_function_eq:
  "new_function target =
     Some \<lparr>blocks = [\<lparr>block_id = 0, instructions = [], num_instructions = 0, visited = False\<rparr>],
           current_block = 0, num_blocks = 1, next_ssa_id = 1,
           reg_allocator = \<lparr>virtual_regs = None, physical_regs = None, num_virtual_regs = 0,
             num_physical_regs = (case target of JIT_ARCH_X86_64 \<Rightarrow> 16 | _ \<Rightarrow> 32)\<rparr>\<rparr>"
  by (cases target)
     (simp_all add: new_function_def jit_function_create_def jit_block_create_def jit_init_def
        process_start_def supported_archs_def Let_def)

lemma fn_add_constants_eq: "fn_add_constants a c u = Some (fn_add_constants_built a c u)"
  by (simp add: fn_add_constants_def fn_add_constants_built_def new_function_eq
      jit_value_create_constant_def jit_value_create_def jit_insn_add_def
      jit_insn_return_def add_instruction_def calloc_instruction_def Let_def)

lemma fn_add_params_eq: "fn_add_params ua ub ur = Some (fn_add_params_built ua ub ur)"
  by (simp add: fn_add_params_def fn_add_params_built_def new_function_eq
      jit_value_create_def jit_insn_add_def
      jit_insn_return_def add_instruction_def calloc_instruction_def Let_def)

lemma fn_store_eq: "fn_store ua uv = Some (fn_store_built ua uv)"
  by (simp add: fn_store_def fn_store_built_def new_function_eq
      jit_value_create_def jit_insn_store_def add_instruction_def calloc_instruction_def Let_def)

lemma context_after_init_eq:
  "context_after_init target =
     \<lparr>target_arch = target, code_mem = (\<lambda>_. 0), code_ptr = 0,
      code_cache_size = 1048576, initialized = True\<rparr>"
  by (simp add: context_after_init_def jit_init_def process_start_def JIT_CODE_CACHE_SIZE_def
      Let_def)

lemma settled_add_eq:
  "settled_add =
     \<lparr>blocks =
        [\<lparr>block_id = 0,
          instructions =
            [\<lparr>opcode = JIT_OP_ADD,
              dest = \<lparr>value_id = 3, value_type = JIT_TYPE_INT64, is_constant = False,
                      constant_value = 0\<rparr>,
              src1 = \<lparr>value_id = 1, value_type = JIT_TYPE_INT64, is_constant = False,
                      constant_value = 0\<rparr>,
              src2 = \<lparr>value_id = 2, value_type = JIT_TYPE_INT64, is_constant = False,
                      constant_value = 0\<rparr>,
              target_block = None, else_block = None, is_live = False\<rparr>,
             \<lparr>opcode = JIT_OP_RETURN,
              dest = zero_value,
              src1 = \<lparr>value_id = 3, value_type = JIT_TYPE_INT64, is_constant = False,
                      constant_value = 0\<rparr>,
              src2 = zero_value,
              target_block = None, else_block = None, is_live = True\<rparr>],
          num_instructions = 2, visited = False\<rparr>],
      current_block = 0, num_blocks = 1, next_ssa_id = 4,
      reg_allocator =
        \<lparr>virtual_regs = None, physical_regs = None, num_virtual_regs = 0,
         num_physical_regs = 16\<rparr>\<rparr>"
  by (simp add: settled_add_def eliminate_dead_code_eq sweep_blocks_def mark_live_def
      fn_add_params_built_def zero_value_def)

lemma passes_fn_add_params:
  "constant_folding (eliminate_dead_code (fn_add_params_built 0 0 0)) = settled_add"
  by (simp add: settled_add_eq)
     (simp add: eliminate_dead_code_eq sweep_blocks_def mark_live_def
      fn_add_params_built_def zero_value_def constant_folding_def fold_instruction_def)

lemma passes_settled_add:
  "constant_folding (eliminate_dead_code settled_add) = settled_add"
  by (simp add: settled_add_eq)
     (simp add: eliminate_dead_code_eq sweep_blocks_def mark_live_def
      zero_value_def constant_folding_def fold_instruction_def)

lemma codegen_settled_add:
  "codegen_x86_64 settled_add =
     [0x55, 0x48, 0x89, 0xe5, 0x48, 0x01, 0xc0, 0x48, 0x89, 0xec, 0x5d, 0xc3]"
  by (simp add: settled_add_eq codegen_x86_64_def emit_x86_64_def)

lemma passes_fn_add_constants:
  "constant_folding (eliminate_dead_code (fn_add_constants_built 3 4 0)) = folded_add_constants"
  by (simp add: eliminate_dead_code_eq sweep_blocks_def mark_live_def
      fn_add_constants_built_def folded_add_constants_def zero_value_def constant_folding_def
      fold_instruction_def jit_value_create_constant_def jit_value_create_def)

subsection \<open>Code generation\<close>

lemma emit_x86_64_is_live [simp]: "emit_x86_64 (inst\<lparr>is_live := l\<rparr>) = emit_x86_64 inst"
  by (cases "opcode inst") (simp_all add: emit_x86_64_def)

lemma emit_arm64_is_live [simp]: "emit_arm64 (inst\<lparr>is_live := l\<rparr>) = emit_arm64 inst"
  by (cases "opcode inst") (simp_all add: emit_arm64_def)

lemma emit_x86_64_mark_live [simp]: "emit_x86_64 (mark_live inst) = emit_x86_64 inst"
  by (simp add: mark_live_def)

lemma emit_arm64_mark_live [simp]: "emit_arm64 (mark_live inst) = emit_arm64 inst"
  by (simp add: mark_live_def)

lemma concat_per_block:
  "concat (map (\<lambda>block. concat (map f (instructions block))) bs) =
   concat (map f (all_instructions bs))"
  by (induction bs) (simp_all add: all_instructions_def)

lemma codegen_x86_64_all:
  "codegen_x86_64 func =
     [0x55, 0x48, 0x89, 0xe5] @ concat (map emit_x86_64 (all_instructions (blocks func)))"
  by (simp add: codegen_x86_64_def concat_per_block)

lemma codegen_arm64_all:
  "codegen_arm64 func =
     [0xa9bf7bfd, 0x910003fd] @ concat (map emit_arm64 (all_instructions (blocks func)))"
  by (simp add: codegen_arm64_def concat_per_block)

lemma all_instructions_sweep:
  "all_instructions (sweep_blocks bs) = map mark_live (all_instructions bs)"
  by (simp add: all_instructions_def sweep_blocks_def map_concat comp_def)

lemma codegen_x86_64_dce: "codegen_x86_64 (eliminate_dead_code func) = codegen_x86_64 func"
  by (simp add: codegen_x86_64_all eliminate_dead_code_eq all_instructions_sweep comp_def)

lemma codegen_arm64_dce: "codegen_arm64 (eliminate_dead_code func) = codegen_arm64 func"
  by (simp add: codegen_arm64_all eliminate_dead_code_eq all_instructions_sweep comp_def)

lemma emit_x86_64_nothing:
  "emit_x86_64 inst = [] \<longleftrightarrow>
   opcode inst \<in> {JIT_OP_DIV, JIT_OP_LOAD, JIT_OP_STORE, JIT_OP_BRANCH, JIT_OP_BRANCH_IF,
                   JIT_OP_CALL}"
  by (cases "opcode inst") (simp_all add: emit_x86_64_def)

lemma emit_arm64_nothing:
  "emit_arm64 inst = [] \<longleftrightarrow>
   opcode inst \<in> {JIT_OP_DIV, JIT_OP_MOV, JIT_OP_LOAD, JIT_OP_STORE, JIT_OP_BRANCH,
                   JIT_OP_BRANCH_IF, JIT_OP_CALL}"
  by (cases "opcode inst") (simp_all add: emit_arm64_def)

text \<open>
  What constant folding leaves of an instruction once its opcode and its two operands are
  put aside: the rest is what the pass may not touch.
\<close>

definition operands_erased :: "jit_instruction_t \<Rightarrow> jit_instruction_t" where
  "operands_erased inst = inst\<lparr>opcode := JIT_OP_MOV, src1 := zero_value, src2 := zero_value\<rparr>"

lemma fold_instruction_erased:
  "operands_erased (fst (fold_instruction func inst)) = operands_erased inst"
  by (simp add: fold_instruction_eq operands_erased_def)

lemma fold_instructions_erased:
  "map operands_erased (fst (fold_instructions func insts)) = map operands_erased insts"
  by (induction insts arbitrary: func) (simp_all add: split_beta fold_instruction_erased)

lemma fold_blocks_erased:
  "map (\<lambda>block. block\<lparr>instructions := map operands_erased (instructions block)\<rparr>)
     (fst (fold_blocks func bs)) =
   map (\<lambda>block. block\<lparr>instructions := map operands_erased (instructions block)\<rparr>) bs"
  by (induction bs arbitrary: func) (simp_all add: split_beta fold_instructions_erased)

subsection \<open>Writing into the cache, compiling\<close>

lemma write_bytes_outside:
  "off < p \<or> p + length bs \<le> off \<Longrightarrow> write_bytes mem p bs off = mem off"
  by (induction bs arbitrary: mem p) auto

lemma write_bytes_inside:
  "p \<le> off \<Longrightarrow> off < p + length bs \<Longrightarrow> write_bytes mem p bs off = bs ! (off - p)"
proof (induction bs arbitrary: mem p)
  case Nil
  then show ?case by simp
next
  case (Cons b bs)
  show ?case
  proof (cases "off = p")
    case True
    then show ?thesis by (simp add: write_bytes_outside)
  next
    case False
    with Cons.prems have "Suc p \<le> off" and "off < Suc p + length bs" by simp_all
    from Cons.IH [OF this] False Cons.prems show ?thesis
      by (simp add: Suc_diff_le)
  qed
qed

lemma length_uint32_bytes [simp]: "length (uint32_bytes w) = 4"
  by (simp add: uint32_bytes_def)

lemma length_concat_uint32_bytes [simp]:
  "length (concat (map uint32_bytes ws)) = 4 * length ws"
  by (induction ws) simp_all

lemma compile_code_cache_size:
  "jit_function_compile (ctx\<lparr>code_cache_size := k\<rparr>) fopt =
     (case jit_function_compile ctx fopt of
        (result, ctx', fopt') \<Rightarrow> (result, ctx'\<lparr>code_cache_size := k\<rparr>, fopt'))"
  by (cases fopt; cases "target_arch ctx") (simp_all add: jit_function_compile_def Let_def)

lemma compile_add_step:
  assumes "initialized ctx" and "target_arch ctx = JIT_ARCH_X86_64"
    and "func = fn_add_params_built 0 0 0 \<or> func = settled_add"
  shows "jit_function_compile ctx (Some func) =
           (Some (code_ptr ctx),
            ctx\<lparr>code_mem := write_bytes (code_mem ctx) (code_ptr ctx) (codegen_x86_64 settled_add),
                code_ptr := code_ptr ctx + 12\<rparr>,
            Some settled_add)"
  using assms passes_fn_add_params passes_settled_add
  by (auto simp: jit_function_compile_def Let_def codegen_settled_add)

text \<open>
  Compiling \<open>f(a, b) = a + b\<close> \<open>n\<close> times in a row moves the cursor by \<open>12 * n\<close> bytes
  and leaves the memory from the cursor on as it was.
\<close>

lemma compile_times_add:
  assumes "initialized ctx" and "target_arch ctx = JIT_ARCH_X86_64"
    and "func = fn_add_params_built 0 0 0 \<or> func = settled_add"
  shows "\<exists>ctx' func'. compile_times n (ctx, Some func) = (ctx', Some func') \<and>
           (func' = fn_add_params_built 0 0 0 \<or> func' = settled_add) \<and>
           initialized ctx' \<and> target_arch ctx' = JIT_ARCH_X86_64 \<and>
           code_cache_size ctx' = code_cache_size ctx \<and>
           code_ptr ctx' = code_ptr ctx + 12 * n \<and>
           (\<forall>off \<ge> code_ptr ctx'. code_mem ctx' off = code_mem ctx off)"
  using assms
proof (induction n arbitrary: ctx func)
  case 0
  then show ?case by simp
next
  case (Suc n)
  let ?ctx1 = "ctx\<lparr>code_mem := write_bytes (code_mem ctx) (code_ptr ctx) (codegen_x86_64 settled_add),
                code_ptr := code_ptr ctx + 12\<rparr>"
  have step: "compile_times (Suc n) (ctx, Some func) = compile_times n (?ctx1, Some settled_add)"
    using compile_add_step [OF Suc.prems] by simp
  have "initialized ?ctx1" and "target_arch ?ctx1 = JIT_ARCH_X86_64"
    using Suc.prems by simp_all
  from Suc.IH [OF this, of settled_add]
  obtain ctx' func' where r: "compile_times n (?ctx1, Some settled_add) = (ctx', Some func')"
    and f: "func' = fn_add_params_built 0 0 0 \<or> func' = settled_add"
    and i: "initialized ctx'" "target_arch ctx' = JIT_ARCH_X86_64"
    and s: "code_cache_size ctx' = code_cache_size ?ctx1"
    and p: "code_ptr ctx' = code_ptr ?ctx1 + 12 * n"
    and m: "\<forall>off \<ge> code_ptr ctx'. code_mem ctx' off = code_mem ?ctx1 off"
    by auto
  have "\<forall>off \<ge> code_ptr ctx'. code_mem ctx' off = code_mem ctx off"
  proof (intro allI impI)
    fix off assume o: "code_ptr ctx' \<le> off"
    then have "code_mem ctx' off = code_mem ?ctx1 off" using m by simp
    also have "\<dots> = code_mem ctx off"
      using o p by (simp add: write_bytes_outside codegen_settled_add)
    finally show "code_mem ctx' off = code_mem ctx off" .
  qed
  with step r f i s p show ?case by simp
qed

lemma fn_3_plus_4_times_2_eq:
  "fn_3_plus_4_times_2 u1 u2 = Some (fn_3_plus_4_times_2_built u1 u2)"
  by (simp add: fn_3_plus_4_times_2_def new_function_eq build_3_plus_4_times_2_def
      fn_3_plus_4_times_2_built_def
      jit_value_create_constant_def jit_value_create_def jit_insn_add_def jit_insn_mul_def
      jit_insn_return_def add_instruction_def calloc_instruction_def Let_def)

lemma passes_fn_3_plus_4_times_2:
  "constant_folding (eliminate_dead_code (fn_3_plus_4_times_2_built u1 u2)) =
   folded_3_plus_4_times_2 u1 u2"
  by (simp add: eliminate_dead_code_eq sweep_blocks_def mark_live_def
      fn_3_plus_4_times_2_built_def folded_3_plus_4_times_2_def zero_value_def
      constant_folding_def fold_instruction_def jit_value_create_constant_def
      jit_value_create_def)

lemma passes_folded_3_plus_4_times_2:
  "constant_folding (eliminate_dead_code (folded_3_plus_4_times_2 u1 u2)) =
   folded_3_plus_4_times_2 u1 u2"
  by (simp add: eliminate_dead_code_eq sweep_blocks_def mark_live_def
      folded_3_plus_4_times_2_def zero_value_def
      constant_folding_def fold_instruction_def jit_value_create_constant_def
      jit_value_create_def)

lemma fn_two_adds_eq: "fn_two_adds = Some fn_two_adds_built"
  by (simp add: fn_two_adds_def fn_two_adds_built_def new_function_eq add_v1_v2_def
      add_v3_v4_def jit_value_create_def jit_insn_add_def add_instruction_def
      calloc_instruction_def Let_def zero_value_def)

subsection \<open>Block ids\<close>

lemma block_id_counter_jit_init [simp]:
  "block_id_counter (snd (jit_init target mapping g)) = block_id_counter g"
  by (cases mapping) (simp_all add: jit_init_def Let_def)

lemma nth_created_block_ids:
  "k < length (created_block_ids calls g) \<Longrightarrow>
   created_block_ids calls g ! k = block_id_counter g + of_nat k"
proof (induction calls arbitrary: g k)
  case Nil
  then show ?case by simp
next
  case (Cons c calls)
  let ?g1 = "g\<lparr>block_id_counter := block_id_counter g + 1\<rparr>"
  have drawn: "created_block_ids (c # calls) g = block_id_counter g # created_block_ids calls ?g1
      \<Longrightarrow> ?case"
  proof -
    assume e: "created_block_ids (c # calls) g = block_id_counter g # created_block_ids calls ?g1"
    show ?case
    proof (cases k)
      case 0
      then show ?thesis by (simp add: e)
    next
      case (Suc j)
      with Cons.prems e have "j < length (created_block_ids calls ?g1)" by simp
      from Cons.IH [OF this] Suc show ?thesis
        by (simp add: e add.assoc)
    qed
  qed
  have skipped: "\<And>g'. created_block_ids (c # calls) g = created_block_ids calls g' \<Longrightarrow>
      block_id_counter g' = block_id_counter g \<Longrightarrow> ?case"
    using Cons.IH Cons.prems by simp
  show ?case
  proof (cases c)
    case (Call_jit_init target mmap_ok)
    then show ?thesis
      by (intro skipped [of "snd (jit_init target (if mmap_ok then Some (\<lambda>_. 0) else None) g)"])
        simp_all
  next
    case (Call_jit_block_create alloc_ok)
    show ?thesis
    proof (cases alloc_ok)
      case True
      with Call_jit_block_create
      have "created_block_ids (c # calls) g = block_id_counter g # created_block_ids calls ?g1"
        by (simp add: jit_block_create_def)
      then show ?thesis by (rule drawn)
    next
      case False
      with Call_jit_block_create
      have "created_block_ids (c # calls) g = created_block_ids calls g"
        by (simp add: jit_block_create_def)
      then show ?thesis by (rule skipped) simp
    qed
  next
    case (Call_jit_function_create fok bok)
    show ?thesis
    proof (cases "initialized (g_jit_context g) \<and> fok \<and> bok")
      case True
      with Call_jit_function_create
      have "created_block_ids (c # calls) g = block_id_counter g # created_block_ids calls ?g1"
        by (simp add: jit_function_create_def jit_block_create_def)
      then show ?thesis by (rule drawn)
    next
      case False
      with Call_jit_function_create
      have "created_block_ids (c # calls) g = created_block_ids calls g"
        by (auto simp: jit_function_create_def jit_block_create_def)
      then show ?thesis by (rule skipped) simp
    qed
  qed
qed

lemma created_block_ids_replicate:
  "length (created_block_ids (replicate n (Call_jit_block_create True)) g) = n"
  by (induction n arbitrary: g) (simp_all add: jit_block_create_def)

subsection \<open>The register-encoding emitter\<close>

text \<open>The bytes a call has added to the buffer.\<close>

definition emitted :: "jit_compiler_context_t \<Rightarrow> jit_compiler_context_t \<Rightarrow> 8 word list" where
  "emitted ctx ctx' =
     take (code_size ctx' - code_size ctx) (drop (code_size ctx) (code_buffer ctx'))"

definition add_reg_reg_bytes :: "x86_register_t \<Rightarrow> x86_register_t \<Rightarrow> 8 word list" where
  "add_reg_reg_bytes dst src =
     [ucast (0x48 OR (drop_bit 3 (x86_register_value dst) AND 1) OR
             push_bit 2 (drop_bit 3 (x86_register_value src) AND 1)),
      0x01,
      ucast (0xC0 OR push_bit 3 (x86_register_value src AND 7) OR (x86_register_value dst AND 7))]"

text \<open>Reading the two register numbers back from the REX and ModR/M bytes.\<close>

definition decode_add_reg_reg :: "8 word list \<Rightarrow> 8 word \<times> 8 word" where
  "decode_add_reg_reg bytes =
     (push_bit 3 (bytes ! 0 AND 1) OR (bytes ! 2 AND 7),
      push_bit 3 (drop_bit 2 (bytes ! 0) AND 1) OR (drop_bit 3 (bytes ! 2) AND 7))"

lemma decode_add_reg_reg_bytes:
  "decode_add_reg_reg (add_reg_reg_bytes dst src) =
     (ucast (x86_register_value dst), ucast (x86_register_value src))"
  by (cases dst; cases src) (simp_all add: decode_add_reg_reg_def add_reg_reg_bytes_def)

lemma x86_register_value_inj:
  "(ucast (x86_register_value r) :: 8 word) = ucast (x86_register_value r') \<longleftrightarrow> r = r'"
  by (cases r; cases r') simp_all

lemma add_reg_reg_bytes_inj:
  "add_reg_reg_bytes dst src = add_reg_reg_bytes dst' src' \<longleftrightarrow> dst = dst' \<and> src = src'"
proof
  assume "add_reg_reg_bytes dst src = add_reg_reg_bytes dst' src'"
  then have "decode_add_reg_reg (add_reg_reg_bytes dst src) =
             decode_add_reg_reg (add_reg_reg_bytes dst' src')"
    by simp
  then show "dst = dst' \<and> src = src'"
    by (simp add: decode_add_reg_reg_bytes x86_register_value_inj)
qed simp

lemma emitted_add_reg_reg:
  assumes "length (code_buffer ctx) = CODE_BUFFER_SIZE" and "code_size ctx + 3 \<le> CODE_BUFFER_SIZE"
  shows "emitted ctx (jit_emit_add_reg_reg ctx dst src) = add_reg_reg_bytes dst src"
proof -
  let ?n = "code_size ctx"
  let ?b = "code_buffer ctx"
  have n: "?n < length ?b" "Suc ?n < length ?b" "Suc (Suc ?n) < length ?b"
    and c: "?n < CODE_BUFFER_SIZE" "Suc ?n < CODE_BUFFER_SIZE" "Suc (Suc ?n) < CODE_BUFFER_SIZE"
    using assms by simp_all
  have t: "\<And>x y z. take 3 (drop ?n (?b[?n := x, Suc ?n := y, Suc (Suc ?n) := z])) = [x, y, z]"
    using n by (simp add: take_Suc_conv_app_nth numeral_3_eq_3 nth_list_update
        Cons_nth_drop_Suc [symmetric])
  show ?thesis
    using c t by (simp add: emitted_def jit_emit_add_reg_reg_def jit_emit_byte_def Let_def
        add_reg_reg_bytes_def)
qed

subsection \<open>The stand-alone allocator\<close>

text \<open>
  The instructions the allocator visits, the destinations among them that have no
  register yet, and the register number that the counter value \<open>n\<close> selects.
\<close>

definition visited_instructions :: "jit_compiler_context_t \<Rightarrow> ssa_instruction_t list" where
  "visited_instructions ctx =
     concat (map bb_instructions (take (nat (block_count ctx)) (ctx_blocks ctx)))"

definition pending :: "(nat \<Rightarrow> ssa_value_t) \<Rightarrow> ssa_instruction_t list \<Rightarrow> nat set" where
  "pending vals insts =
     {p. \<exists>inst \<in> set insts. ssa_dest inst = Some p \<and> data_reg (vals p) = - 1}"

definition round_robin :: "int \<Rightarrow> int" where
  "round_robin n = uint (x86_register_value (available_regs ! nat (n mod 14)))"

lemma reg_count_eq [simp]: "reg_count = 14"
  by (simp add: reg_count_def available_regs_def)

lemma c_rem_nonneg: "0 \<le> a \<Longrightarrow> c_rem a 14 = a mod 14"
  by (cases "a = 0") (simp_all add: c_rem_def sgn_if)

lemma round_robin_not_unassigned: "round_robin n \<noteq> - 1"
proof -
  have "0 \<le> round_robin n"
    by (simp add: round_robin_def)
  then show ?thesis by linarith
qed

lemma allocate_instructions_round_robin:
  assumes "0 \<le> n" and "n + int (length insts) \<le> INT_MAX"
  shows "\<exists>vals' order.
           allocate_instructions insts (vals, n) = Some (vals', n + int (length order)) \<and>
           distinct order \<and> set order = pending vals insts \<and>
           (\<forall>k < length order.
              vals' (order ! k) = (vals (order ! k))\<lparr>data_reg := round_robin (n + int k)\<rparr>) \<and>
           (\<forall>p. p \<notin> set order \<longrightarrow> vals' p = vals p)"
  using assms
proof (induction insts arbitrary: vals n)
  case Nil
  show ?case
    by (rule exI [of _ vals], rule exI [of _ "[]"]) (simp add: pending_def)
next
  case (Cons inst rest)
  show ?case
  proof (cases "\<exists>p. ssa_dest inst = Some p \<and> data_reg (vals p) = - 1")
    case False
    then have step: "allocate_instruction inst (vals, n) = Some (vals, n)"
      by (auto simp: allocate_instruction_def split: option.splits)
    have pend: "pending vals (inst # rest) = pending vals rest"
      using False by (auto simp: pending_def)
    from Cons.prems have "0 \<le> n" and "n + int (length rest) \<le> INT_MAX" by simp_all
    from Cons.IH [OF this, of vals] show ?thesis
      by (simp add: step pend)
  next
    case True
    then obtain p where p: "ssa_dest inst = Some p" "data_reg (vals p) = - 1" by blast
    let ?vals1 = "vals(p := (vals p)\<lparr>data_reg := round_robin n\<rparr>)"
    have nmax: "n \<noteq> INT_MAX" using Cons.prems by simp
    have step: "allocate_instruction inst (vals, n) = Some (?vals1, n + 1)"
      using p Cons.prems(1) nmax
      by (simp add: allocate_instruction_def c_rem_nonneg round_robin_def Let_def)
    from Cons.prems have "0 \<le> n + 1" and "n + 1 + int (length rest) \<le> INT_MAX" by simp_all
    from Cons.IH [OF this, of ?vals1]
    obtain vals' order where
      run: "allocate_instructions rest (?vals1, n + 1) = Some (vals', n + 1 + int (length order))"
      and d: "distinct order" and s: "set order = pending ?vals1 rest"
      and a: "\<forall>k < length order.
                vals' (order ! k) = (?vals1 (order ! k))\<lparr>data_reg := round_robin (n + 1 + int k)\<rparr>"
      and o: "\<forall>q. q \<notin> set order \<longrightarrow> vals' q = ?vals1 q"
      by blast
    have pn: "p \<notin> set order"
      using s by (simp add: pending_def round_robin_not_unassigned)
    have pend: "pending vals (inst # rest) = insert p (pending ?vals1 rest)"
      using p by (auto simp: pending_def round_robin_not_unassigned)
    have "allocate_instructions (inst # rest) (vals, n) =
            Some (vals', n + int (length (p # order)))"
      using run by (simp add: step add.commute add.left_commute)
    moreover have "distinct (p # order)" using d pn by simp
    moreover have "set (p # order) = pending vals (inst # rest)" using s pend by simp
    moreover have "\<forall>k < length (p # order).
        vals' ((p # order) ! k) = (vals ((p # order) ! k))\<lparr>data_reg := round_robin (n + int k)\<rparr>"
    proof (intro allI impI)
      fix k assume k: "k < length (p # order)"
      show "vals' ((p # order) ! k) = (vals ((p # order) ! k))\<lparr>data_reg := round_robin (n + int k)\<rparr>"
      proof (cases k)
        case 0
        then show ?thesis using o pn by simp
      next
        case (Suc j)
        with k have j: "j < length order" by simp
        then have "order ! j \<noteq> p" using pn by (metis nth_mem)
        with a j Suc show ?thesis
          by (simp add: add.commute add.left_commute)
      qed
    qed
    moreover have "\<forall>q. q \<notin> set (p # order) \<longrightarrow> vals' q = vals q"
      using o by simp
    ultimately show ?thesis by blast
  qed
qed

lemma allocate_instructions_append:
  "allocate_instructions (xs @ ys) s =
     (case allocate_instructions xs s of None \<Rightarrow> None | Some s' \<Rightarrow> allocate_instructions ys s')"
  by (induction xs arbitrary: s) (simp_all split: option.splits)

lemma allocate_blocks_concat:
  "allocate_blocks bs s = allocate_instructions (concat (map bb_instructions bs)) s"
  by (induction bs arbitrary: s) (simp_all add: allocate_instructions_append split: option.splits)

lemma jit_allocate_registers_round_robin:
  assumes "0 \<le> next_reg ctx" and "block_count ctx \<le> int (length (ctx_blocks ctx))"
    and "next_reg ctx + int (length (visited_instructions ctx)) \<le> INT_MAX"
  shows "\<exists>vals' order.
           jit_allocate_registers vals ctx =
             Some (vals', ctx\<lparr>next_reg := next_reg ctx + int (length order)\<rparr>) \<and>
           distinct order \<and> set order = pending vals (visited_instructions ctx) \<and>
           (\<forall>k < length order.
              vals' (order ! k) =
                (vals (order ! k))\<lparr>data_reg := round_robin (next_reg ctx + int k)\<rparr>) \<and>
           (\<forall>p. p \<notin> set order \<longrightarrow> vals' p = vals p)"
proof -
  from allocate_instructions_round_robin [OF assms(1) assms(3), of vals]
  obtain vals' order where
    run: "allocate_instructions (visited_instructions ctx) (vals, next_reg ctx) =
            Some (vals', next_reg ctx + int (length order))"
    and rest: "distinct order" "set order = pending vals (visited_instructions ctx)"
      "\<forall>k < length order.
         vals' (order ! k) = (vals (order ! k))\<lparr>data_reg := round_robin (next_reg ctx + int k)\<rparr>"
      "\<forall>p. p \<notin> set order \<longrightarrow> vals' p = vals p"
    by blast
  have "jit_allocate_registers vals ctx =
          Some (vals', ctx\<lparr>next_reg := next_reg ctx + int (length order)\<rparr>)"
    using assms(2) run
    by (simp add: jit_allocate_registers_def allocate_blocks_concat visited_instructions_def)
  with rest show ?thesis by blast
qed

lemma available_regs_exclude: "RSP \<notin> set available_regs \<and> RBP \<notin> set available_regs"
  by (simp add: available_regs_def)

lemma allocate_context_two_adds:
  "map_option (\<lambda>(vals', ctx'). (map (\<lambda>p. data_reg (vals' p)) [0, 1, 2, 3], next_reg ctx'))
     (jit_allocate_registers values_unassigned context_two_adds) =
   Some ([- 1, - 1, 15, 0], 15)"
  by (simp add: jit_allocate_registers_def context_two_adds_def values_unassigned_def
      allocate_instruction_def c_rem_def INT_MAX_def available_regs_def Let_def)

subsection \<open>Value ids\<close>

text \<open>
  The calls that can create a value in a function: the two constructors, the four
  instruction builders with a destination, and constant folding, which draws a new
  constant for every instruction it rewrites. The other builders and dead-code
  elimination are calls too, and create none. A run of calls on a function returns the
  ids of the values it created, in order of creation, or nothing where the C dereferences
  a cursor that stands on no block.
\<close>

datatype builder_call =
  Call_jit_value_create jit_type_t "64 word"
| Call_jit_value_create_constant jit_type_t "64 word"
| Call_jit_insn_add jit_value_t jit_value_t "64 word"
| Call_jit_insn_sub jit_value_t jit_value_t "64 word"
| Call_jit_insn_mul jit_value_t jit_value_t "64 word"
| Call_jit_insn_load jit_value_t "64 word"
| Call_jit_insn_store jit_value_t jit_value_t
| Call_jit_insn_branch "nat option"
| Call_jit_insn_branch_if jit_value_t "nat option" "nat option"
| Call_jit_insn_return jit_value_t
| Call_eliminate_dead_code
| Call_constant_folding

text \<open>
  The ids of the constants one pass of \<^verbatim>\<open>constant_folding\<close> created: the new \<open>src1\<close>
  of every instruction that met the condition of the rewrite, in program order.
\<close>

definition folded_ids :: "jit_instruction_t list \<Rightarrow> jit_instruction_t list \<Rightarrow> 32 word list" where
  "folded_ids before after =
     map (\<lambda>(inst, inst'). value_id (src1 inst')) (filter (\<lambda>(inst, inst'). foldable inst) (zip before after))"

fun builder_step ::
  "builder_call \<Rightarrow> jit_function_t \<Rightarrow> (32 word list \<times> jit_function_t) option" where
  "builder_step (Call_jit_value_create ty uninit) func =
     (let (v, func') = jit_value_create func ty uninit in Some ([value_id v], func'))"
| "builder_step (Call_jit_value_create_constant ty constant) func =
     (let (v, func') = jit_value_create_constant func ty constant in Some ([value_id v], func'))"
| "builder_step (Call_jit_insn_add left right uninit) func =
     map_option (\<lambda>(v, func'). ([value_id v], func')) (jit_insn_add func left right uninit)"
| "builder_step (Call_jit_insn_sub left right uninit) func =
     map_option (\<lambda>(v, func'). ([value_id v], func')) (jit_insn_sub func left right uninit)"
| "builder_step (Call_jit_insn_mul left right uninit) func =
     map_option (\<lambda>(v, func'). ([value_id v], func')) (jit_insn_mul func left right uninit)"
| "builder_step (Call_jit_insn_load address uninit) func =
     map_option (\<lambda>(v, func'). ([value_id v], func')) (jit_insn_load func address uninit)"
| "builder_step (Call_jit_insn_store address val) func =
     map_option (\<lambda>func'. ([], func')) (jit_insn_store func address val)"
| "builder_step (Call_jit_insn_branch target) func =
     map_option (\<lambda>func'. ([], func')) (jit_insn_branch func target)"
| "builder_step (Call_jit_insn_branch_if condition true_block false_block) func =
     map_option (\<lambda>func'. ([], func')) (jit_insn_branch_if func condition true_block false_block)"
| "builder_step (Call_jit_insn_return val) func =
     map_option (\<lambda>func'. ([], func')) (jit_insn_return func val)"
| "builder_step Call_eliminate_dead_code func = Some ([], eliminate_dead_code func)"
| "builder_step Call_constant_folding func =
     Some (folded_ids (all_instructions (blocks func))
             (all_instructions (blocks (constant_folding func))),
           constant_folding func)"

fun created_value_ids ::
  "builder_call list \<Rightarrow> jit_function_t \<Rightarrow> (32 word list \<times> jit_function_t) option" where
  "created_value_ids [] func = Some ([], func)"
| "created_value_ids (call # calls) func =
     (case builder_step call func of
        None \<Rightarrow> None
      | Some (ids, func') \<Rightarrow>
          map_option (\<lambda>(ids', func''). (ids @ ids', func'')) (created_value_ids calls func'))"

text \<open>A list of ids that counts up from \<open>n\<close> in steps of one, modulo \<open>2 ^ 32\<close>.\<close>

definition consecutive_from :: "32 word \<Rightarrow> 32 word list \<Rightarrow> bool" where
  "consecutive_from n ids \<longleftrightarrow> ids = map (\<lambda>k. n + of_nat k) [0..<length ids]"

text \<open>The first function of a process, written out.\<close>

definition first_function :: jit_function_t where
  "first_function =
     \<lparr>blocks = [\<lparr>block_id = 0, instructions = [], num_instructions = 0, visited = False\<rparr>],
      current_block = 0, num_blocks = 1, next_ssa_id = 1,
      reg_allocator = \<lparr>virtual_regs = None, physical_regs = None, num_virtual_regs = 0,
                       num_physical_regs = 16\<rparr>\<rparr>"

text \<open>
  A run that builds \<open>3.0 + 4\<close> from two constants and then runs both passes: four
  values are created, the last one by constant folding.
\<close>

definition calls_fold_3_plus_4 :: "builder_call list" where
  "calls_fold_3_plus_4 =
     [Call_jit_value_create_constant JIT_TYPE_FLOAT64 3,
      Call_jit_value_create_constant JIT_TYPE_INT64 4,
      Call_jit_insn_add
        \<lparr>value_id = 1, value_type = JIT_TYPE_FLOAT64, is_constant = True, constant_value = 3\<rparr>
        \<lparr>value_id = 2, value_type = JIT_TYPE_INT64, is_constant = True, constant_value = 4\<rparr> 0,
      Call_eliminate_dead_code,
      Call_constant_folding]"

lemma consecutive_from_Nil [simp]: "consecutive_from n []"
  by (simp add: consecutive_from_def)

lemma consecutive_from_single [simp]: "consecutive_from n [n]"
  by (simp add: consecutive_from_def)

lemma consecutive_from_nth:
  "consecutive_from n ids \<longleftrightarrow> (\<forall>k < length ids. ids ! k = n + of_nat k)"
proof
  assume c: "consecutive_from n ids"
  show "\<forall>k < length ids. ids ! k = n + of_nat k"
  proof (intro allI impI)
    fix k assume k: "k < length ids"
    have "ids ! k = map (\<lambda>k. n + of_nat k) [0..<length ids] ! k"
      using c unfolding consecutive_from_def by (rule arg_cong)
    also have "\<dots> = n + of_nat k"
      using k by simp
    finally show "ids ! k = n + of_nat k" .
  qed
next
  assume a: "\<forall>k < length ids. ids ! k = n + of_nat k"
  show "consecutive_from n ids"
    unfolding consecutive_from_def
    by (rule nth_equalityI) (simp_all add: a)
qed

lemma consecutive_from_append:
  assumes "consecutive_from n xs" and "consecutive_from (n + of_nat (length xs)) ys"
  shows "consecutive_from n (xs @ ys)"
  unfolding consecutive_from_nth
proof (intro allI impI)
  fix k assume k: "k < length (xs @ ys)"
  show "(xs @ ys) ! k = n + of_nat k"
  proof (cases "k < length xs")
    case True
    then show ?thesis
      using assms(1) by (simp add: consecutive_from_nth nth_append)
  next
    case False
    then have "k - length xs < length ys" using k by simp
    then have "ys ! (k - length xs) = n + of_nat (length xs) + of_nat (k - length xs)"
      using assms(2) by (simp add: consecutive_from_nth)
    also have "\<dots> = n + of_nat k"
      using False by (simp add: add.assoc flip: of_nat_add)
    finally show ?thesis
      using False by (simp add: nth_append)
  qed
qed

lemma consecutive_from_Cons:
  "consecutive_from (n + 1) ids \<Longrightarrow> consecutive_from n (n # ids)"
  using consecutive_from_append [of n "[n]" ids] by simp

lemma fold_instructions_append:
  "fold_instructions func (xs @ ys) =
     (fst (fold_instructions func xs) @
        fst (fold_instructions (snd (fold_instructions func xs)) ys),
      snd (fold_instructions (snd (fold_instructions func xs)) ys))"
  by (induction xs arbitrary: func) (simp_all add: split_beta)

lemma all_instructions_fold_blocks:
  "all_instructions (fst (fold_blocks func bs)) =
   fst (fold_instructions func (all_instructions bs))"
proof (induction bs arbitrary: func)
  case Nil
  show ?case by (simp add: all_instructions_def)
next
  case (Cons b bs)
  let ?f1 = "snd (fold_instructions func (instructions b))"
  have "all_instructions (fst (fold_blocks func (b # bs))) =
        fst (fold_instructions func (instructions b)) @ all_instructions (fst (fold_blocks ?f1 bs))"
    by (simp add: split_beta all_instructions_def)
  also have "\<dots> = fst (fold_instructions func (instructions b)) @
        fst (fold_instructions ?f1 (all_instructions bs))"
    by (simp only: Cons.IH)
  also have "\<dots> = fst (fold_instructions func (all_instructions (b # bs)))"
    by (simp add: fold_instructions_append all_instructions_def)
  finally show ?case .
qed

lemma folded_ids_fold_instructions:
  "consecutive_from (next_ssa_id func) (folded_ids insts (fst (fold_instructions func insts))) \<and>
   length (folded_ids insts (fst (fold_instructions func insts))) = length (filter foldable insts)"
proof (induction insts arbitrary: func)
  case Nil
  show ?case by (simp add: folded_ids_def)
next
  case (Cons inst rest)
  let ?f1 = "snd (fold_instruction func inst)"
  have IH: "consecutive_from (next_ssa_id ?f1) (folded_ids rest (fst (fold_instructions ?f1 rest)))"
    and L: "length (folded_ids rest (fst (fold_instructions ?f1 rest))) = length (filter foldable rest)"
    using Cons.IH [of ?f1] by simp_all
  show ?case
  proof (cases "foldable inst")
    case True
    then have e: "folded_ids (inst # rest) (fst (fold_instructions func (inst # rest))) =
        next_ssa_id func # folded_ids rest (fst (fold_instructions ?f1 rest))"
      by (simp add: folded_ids_def split_beta fold_instruction_eq)
    have n: "next_ssa_id ?f1 = next_ssa_id func + 1"
      using True by (simp add: fold_instruction_eq)
    show ?thesis
      unfolding e using IH L True by (simp add: n consecutive_from_Cons)
  next
    case False
    then have e: "folded_ids (inst # rest) (fst (fold_instructions func (inst # rest))) =
        folded_ids rest (fst (fold_instructions ?f1 rest))"
      by (simp add: folded_ids_def split_beta fold_instruction_eq)
    have n: "next_ssa_id ?f1 = next_ssa_id func"
      using False by (simp add: fold_instruction_eq)
    show ?thesis
      unfolding e using IH L False by (simp add: n)
  qed
qed

lemma add_instruction_next_ssa_id:
  "add_instruction func inst = Some func' \<Longrightarrow> next_ssa_id func' = next_ssa_id func"
  by (auto simp: add_instruction_def Let_def split: if_splits)

lemma jit_insn_add_id:
  "jit_insn_add func left right uninit = Some (v, func') \<Longrightarrow>
   value_id v = next_ssa_id func \<and> next_ssa_id func' = next_ssa_id func + 1"
  by (auto simp: jit_insn_add_def jit_value_create_def dest: add_instruction_next_ssa_id)

lemma jit_insn_sub_id:
  "jit_insn_sub func left right uninit = Some (v, func') \<Longrightarrow>
   value_id v = next_ssa_id func \<and> next_ssa_id func' = next_ssa_id func + 1"
  by (auto simp: jit_insn_sub_def jit_value_create_def dest: add_instruction_next_ssa_id)

lemma jit_insn_mul_id:
  "jit_insn_mul func left right uninit = Some (v, func') \<Longrightarrow>
   value_id v = next_ssa_id func \<and> next_ssa_id func' = next_ssa_id func + 1"
  by (auto simp: jit_insn_mul_def jit_value_create_def dest: add_instruction_next_ssa_id)

lemma jit_insn_load_id:
  "jit_insn_load func address uninit = Some (v, func') \<Longrightarrow>
   value_id v = next_ssa_id func \<and> next_ssa_id func' = next_ssa_id func + 1"
  by (auto simp: jit_insn_load_def jit_value_create_def dest: add_instruction_next_ssa_id)

lemma builder_step_consecutive:
  assumes "builder_step call func = Some (ids, func')"
  shows "consecutive_from (next_ssa_id func) ids \<and>
         next_ssa_id func' = next_ssa_id func + of_nat (length ids)"
proof (cases call)
  case (Call_jit_value_create ty uninit)
  with assms show ?thesis by (auto simp: jit_value_create_def)
next
  case (Call_jit_value_create_constant ty c)
  with assms show ?thesis
    by (auto simp: jit_value_create_constant_def jit_value_create_def)
next
  case (Call_jit_insn_add left right uninit)
  with assms show ?thesis by (auto dest: jit_insn_add_id)
next
  case (Call_jit_insn_sub left right uninit)
  with assms show ?thesis by (auto dest: jit_insn_sub_id)
next
  case (Call_jit_insn_mul left right uninit)
  with assms show ?thesis by (auto dest: jit_insn_mul_id)
next
  case (Call_jit_insn_load address uninit)
  with assms show ?thesis by (auto dest: jit_insn_load_id)
next
  case (Call_jit_insn_store address val)
  with assms show ?thesis
    by (auto simp: jit_insn_store_def dest: add_instruction_next_ssa_id)
next
  case (Call_jit_insn_branch target)
  with assms show ?thesis
    by (auto simp: jit_insn_branch_def dest: add_instruction_next_ssa_id)
next
  case (Call_jit_insn_branch_if condition true_block false_block)
  with assms show ?thesis
    by (auto simp: jit_insn_branch_if_def dest: add_instruction_next_ssa_id)
next
  case (Call_jit_insn_return val)
  with assms show ?thesis
    by (auto simp: jit_insn_return_def dest: add_instruction_next_ssa_id)
next
  case Call_eliminate_dead_code
  with assms show ?thesis by (auto simp: eliminate_dead_code_eq)
next
  case Call_constant_folding
  have a: "all_instructions (blocks (constant_folding func)) =
      fst (fold_instructions func (all_instructions (blocks func)))"
    by (simp add: blocks_constant_folding all_instructions_fold_blocks)
  have i: "ids = folded_ids (all_instructions (blocks func))
             (fst (fold_instructions func (all_instructions (blocks func))))"
    and f: "func' = constant_folding func"
    using assms Call_constant_folding by (simp_all add: a)
  show ?thesis
    using folded_ids_fold_instructions [of func "all_instructions (blocks func)"]
    unfolding i f by (simp add: constant_folding_rest)
qed

lemma created_value_ids_consecutive:
  assumes "created_value_ids calls func = Some (ids, func')"
  shows "consecutive_from (next_ssa_id func) ids \<and>
         next_ssa_id func' = next_ssa_id func + of_nat (length ids)"
  using assms
proof (induction calls arbitrary: func ids)
  case Nil
  then show ?case by simp
next
  case (Cons call calls)
  from Cons.prems obtain ids1 func1 ids2 where
    s: "builder_step call func = Some (ids1, func1)"
    and r: "created_value_ids calls func1 = Some (ids2, func')"
    and i: "ids = ids1 @ ids2"
    by (auto split: option.splits)
  from builder_step_consecutive [OF s]
  have c1: "consecutive_from (next_ssa_id func) ids1"
    and n1: "next_ssa_id func1 = next_ssa_id func + of_nat (length ids1)"
    by simp_all
  from Cons.IH [OF r]
  have c2: "consecutive_from (next_ssa_id func1) ids2"
    and n2: "next_ssa_id func' = next_ssa_id func1 + of_nat (length ids2)"
    by simp_all
  show ?case
    using consecutive_from_append [of "next_ssa_id func" ids1 ids2] c1 c2 n1 n2
    by (simp add: i add.assoc)
qed

lemma new_function_first: "new_function JIT_ARCH_X86_64 = Some first_function"
  by (simp add: new_function_eq first_function_def)

lemma word32_of_nat_neq:
  assumes "k < m" and "m < 2 ^ 32"
  shows "(of_nat k :: 32 word) \<noteq> of_nat m"
proof
  assume "(of_nat k :: 32 word) = of_nat m"
  then have "unat (of_nat k :: 32 word) = unat (of_nat m :: 32 word)" by simp
  then have "k = m"
    using assms by (simp add: unat_of_nat take_bit_nat_eq_self)
  with assms show False by simp
qed

lemma consecutive_from_fresh:
  assumes "consecutive_from n ids" and "unat n + length ids < 2 ^ 32"
  shows "n + of_nat (length ids) \<notin> set ids"
proof
  assume "n + of_nat (length ids) \<in> set ids"
  then obtain k where k: "k < length ids" and e: "ids ! k = n + of_nat (length ids)"
    by (auto simp: in_set_conv_nth)
  have "ids ! k = n + of_nat k"
    using assms(1) k by (simp add: consecutive_from_nth)
  with e have "(of_nat k :: 32 word) = of_nat (length ids)" by simp
  moreover have "length ids < 2 ^ 32" using assms(2) by simp
  ultimately show False
    using word32_of_nat_neq [OF k] by blast
qed

lemma created_value_ids_fold_3_plus_4:
  "map_option fst (created_value_ids calls_fold_3_plus_4 first_function) = Some [1, 2, 3, 4]"
  by (simp add: calls_fold_3_plus_4_def first_function_def jit_value_create_constant_def
      jit_value_create_def jit_insn_add_def add_instruction_def calloc_instruction_def Let_def
      eliminate_dead_code_eq sweep_blocks_def mark_live_def constant_folding_def
      fold_instruction_def folded_ids_def foldable_def all_instructions_def zero_value_def)

lemma created_value_ids_replicate:
  "\<exists>ids. created_value_ids (replicate n (Call_jit_value_create ty u)) func =
           Some (ids, bump_ssa n func) \<and> length ids = n"
proof (induction n arbitrary: func)
  case 0
  show ?case by simp
next
  case (Suc n)
  have s: "builder_step (Call_jit_value_create ty u) func = Some ([next_ssa_id func], bump_ssa 1 func)"
    by (simp add: jit_value_create_def bump_ssa_def)
  from Suc.IH [of "bump_ssa 1 func"]
  obtain ids where "created_value_ids (replicate n (Call_jit_value_create ty u)) (bump_ssa 1 func) =
      Some (ids, bump_ssa (Suc n) func)" and "length ids = n"
    by auto
  then show ?case
    by (simp add: s del: builder_step.simps)
qed

section \<open>The claims\<close>

text \<open>
  C1. Constant folding rewrites every instruction whose opcode is Add, Sub or Mul and
  whose two operands are constants: the opcode becomes Mov, \<open>src1\<close> becomes a constant
  newly drawn from the function's SSA counter (its id is the counter advanced by the
  number of instructions folded earlier in program order) that carries the type of the
  destination and the sum, difference or product of the two constants in 64-bit
  two's-complement arithmetic, and \<open>src2\<close> is cleared the way the C clears it, by
  zeroing its id. The signed value of the new constant is the exact result reduced into
  the range of a 64-bit signed integer. Every other instruction is left as it was.
\<close>

theorem constant_folding_folds:
  assumes "b < length (blocks func)" and "i < length (instructions (blocks func ! b))"
  shows "(let inst = instructions (blocks func ! b) ! i;
              inst' = instructions (blocks (constant_folding func) ! b) ! i;
              a = constant_value (src1 inst);
              c = constant_value (src2 inst);
              k = length (filter foldable (instructions_before func b i))
          in if is_constant (src1 inst) \<and> is_constant (src2 inst) \<and>
                opcode inst \<in> {JIT_OP_ADD, JIT_OP_SUB, JIT_OP_MUL}
             then inst' =
                    inst\<lparr>opcode := JIT_OP_MOV,
                         src1 := \<lparr>value_id = next_ssa_id func + of_nat k,
                                  value_type = value_type (dest inst),
                                  is_constant = True,
                                  constant_value =
                                    (case opcode inst of
                                       JIT_OP_ADD \<Rightarrow> a + c
                                     | JIT_OP_SUB \<Rightarrow> a - c
                                     | _ \<Rightarrow> a * c)\<rparr>,
                         src2 := (src2 inst)\<lparr>value_id := 0\<rparr>\<rparr> \<and>
                  sint (constant_value (src1 inst')) =
                    (case opcode inst of
                       JIT_OP_ADD \<Rightarrow> (sint a + sint c + 2 ^ 63) mod 2 ^ 64 - 2 ^ 63
                     | JIT_OP_SUB \<Rightarrow> (sint a - sint c + 2 ^ 63) mod 2 ^ 64 - 2 ^ 63
                     | _ \<Rightarrow> (sint a * sint c + 2 ^ 63) mod 2 ^ 64 - 2 ^ 63)
             else inst' = inst)"
proof -
  let ?inst = "instructions (blocks func ! b) ! i"
  show ?thesis
  proof (cases "foldable ?inst")
    case True
    then consider "opcode ?inst = JIT_OP_ADD" | "opcode ?inst = JIT_OP_SUB"
      | "opcode ?inst = JIT_OP_MUL"
      by (auto simp: foldable_def)
    then show ?thesis
    proof cases
      case 1
      with True show ?thesis
        using nth_constant_folding [OF assms]
        by (simp add: Let_def foldable_def folded_constant_def sint_add64)
    next
      case 2
      with True show ?thesis
        using nth_constant_folding [OF assms]
        by (simp add: Let_def foldable_def folded_constant_def sint_sub64)
    next
      case 3
      with True show ?thesis
        using nth_constant_folding [OF assms]
        by (simp add: Let_def foldable_def folded_constant_def sint_mul64)
    qed
  next
    case False
    then show ?thesis
      using nth_constant_folding [OF assms]
      by (auto simp: Let_def foldable_def)
  qed
qed

text \<open>
  The theorem at \<open>f() = 9223372036854775807 + 1\<close>: the Add becomes a Mov of the
  constant with signed value \<open>-9223372036854775808\<close>.
\<close>

theorem constant_folding_folds_witness:
  "0 < length (blocks (fn_add_constants_built 0x7FFFFFFFFFFFFFFF 1 0)) \<and>
   0 < length (instructions (blocks (fn_add_constants_built 0x7FFFFFFFFFFFFFFF 1 0) ! 0)) \<and>
   instructions (blocks (constant_folding (fn_add_constants_built 0x7FFFFFFFFFFFFFFF 1 0)) ! 0) ! 0 =
     \<lparr>opcode = JIT_OP_MOV,
      dest = \<lparr>value_id = 3, value_type = JIT_TYPE_INT64, is_constant = False,
              constant_value = 0\<rparr>,
      src1 = \<lparr>value_id = 4, value_type = JIT_TYPE_INT64, is_constant = True,
              constant_value = 0x8000000000000000\<rparr>,
      src2 = \<lparr>value_id = 0, value_type = JIT_TYPE_INT64, is_constant = True,
              constant_value = 1\<rparr>,
      target_block = None, else_block = None, is_live = False\<rparr> \<and>
   sint (constant_value (src1 (instructions
     (blocks (constant_folding (fn_add_constants_built 0x7FFFFFFFFFFFFFFF 1 0)) ! 0) ! 0))) =
     - 9223372036854775808"
proof -
  let ?f = "fn_add_constants_built 0x7FFFFFFFFFFFFFFF 1 0"
  have b: "0 < length (blocks ?f)"
    by (simp add: fn_add_constants_built_def)
  have i: "0 < length (instructions (blocks ?f ! 0))"
    by (simp add: fn_add_constants_built_def)
  show ?thesis
    using constant_folding_folds [OF b i]
    by (simp add: fn_add_constants_built_def instructions_before_def all_instructions_def
        Let_def)
qed

text \<open>
  C2. After dead-code elimination every Store, Return and Call is live, and so is every
  instruction whose destination a live instruction reads. The code does the first half
  only: its sweep marks the three opcodes and never looks at an operand. At
  \<open>f(a, b) = a + b\<close> the Return is live after the pass, it reads the value the Add
  defines, and the Add is still not live.
\<close>

theorem dce_leaves_operand_producer_dead:
  "fn_add_params 0 0 0 = Some (fn_add_params_built 0 0 0) \<and>
   (let insts = instructions (blocks (eliminate_dead_code (fn_add_params_built 0 0 0)) ! 0)
    in length insts = 2 \<and>
       opcode (insts ! 1) = JIT_OP_RETURN \<and> is_live (insts ! 1) \<and>
       opcode (insts ! 0) = JIT_OP_ADD \<and>
       src1 (insts ! 1) = dest (insts ! 0) \<and>
       \<not> is_live (insts ! 0))"
  by (simp add: fn_add_params_eq eliminate_dead_code_eq sweep_blocks_def mark_live_def
      fn_add_params_built_def Let_def)

text \<open>
  C3. The claim asks that compiling into a context with K bytes left ends in
  CacheExhausted and that no emitted byte lands outside the cache. The code breaks it:
  neither \<^verbatim>\<open>jit_function_compile\<close> nor a generator compares anything with
  \<open>code_cache_size\<close>. Starting from \<^verbatim>\<open>jit_init\<close>, 87381 compilations of
  \<open>f(a, b) = a + b\<close> (12 bytes each) leave the cursor 4 bytes before the end of the
  1 MiB cache; the next compilation reports success and stores eight of its twelve bytes
  behind the mapping: the byte at offset 1048576, the first one the engine does not own,
  changes from 0 to 0x48, and the cursor ends beyond the recorded capacity.
\<close>

theorem compile_writes_past_the_cache:
  "(let (ctx, fopt) =
          compile_times 87381 (context_after_init JIT_ARCH_X86_64, Some (fn_add_params_built 0 0 0))
    in code_cache_size ctx = 1048576 \<and> code_ptr ctx = 1048572 \<and> code_mem ctx 1048576 = 0 \<and>
       (case jit_function_compile ctx fopt of
          (result, ctx', fopt') \<Rightarrow>
            result = Some 1048572 \<and> code_cache_size ctx' = 1048576 \<and>
            code_mem ctx' 1048576 = 0x48 \<and> code_ptr ctx' = 1048584))"
proof -
  let ?ctx0 = "context_after_init JIT_ARCH_X86_64"
  have "initialized ?ctx0" and "target_arch ?ctx0 = JIT_ARCH_X86_64"
    by (simp_all add: context_after_init_eq)
  from compile_times_add [OF this, of "fn_add_params_built 0 0 0" 87381]
  obtain ctx func where r: "compile_times 87381 (?ctx0, Some (fn_add_params_built 0 0 0)) =
      (ctx, Some func)"
    and f: "func = fn_add_params_built 0 0 0 \<or> func = settled_add"
    and i: "initialized ctx" "target_arch ctx = JIT_ARCH_X86_64"
    and s: "code_cache_size ctx = code_cache_size ?ctx0"
    and p: "code_ptr ctx = code_ptr ?ctx0 + 12 * 87381"
    and m: "\<forall>off \<ge> code_ptr ctx. code_mem ctx off = code_mem ?ctx0 off"
    by auto
  have p': "code_ptr ctx = 1048572" using p by (simp add: context_after_init_eq)
  have s': "code_cache_size ctx = 1048576" using s by (simp add: context_after_init_eq)
  have m': "code_mem ctx 1048576 = 0" using m p' by (simp add: context_after_init_eq)
  have w: "write_bytes (code_mem ctx) 1048572 (codegen_x86_64 settled_add) 1048576 = 0x48"
    by (simp add: write_bytes_inside codegen_settled_add)
  show ?thesis
    using compile_add_step [OF i f] r p' s' m' w by simp
qed

text \<open>
  C4, as stated: a compilation that fails leaves the IR of the function untouched and the
  cursor where it was. The second half holds, the first does not: for a target without a
  generator both passes have run before the failure is noticed. Compiling
  \<open>f() = 3 + 4\<close> for RISC-V returns \<^verbatim>\<open>NULL\<close>, and the function it leaves has a Mov
  where the Add was, a live Return and an SSA counter one higher.
\<close>

theorem failed_compile_rewrites_ir:
  "fn_add_constants 3 4 0 = Some (fn_add_constants_built 3 4 0) \<and>
   (case jit_function_compile (context_after_init JIT_ARCH_RISCV64)
           (Some (fn_add_constants_built 3 4 0)) of
      (result, ctx', fopt') \<Rightarrow>
        result = None \<and>
        fopt' \<noteq> Some (fn_add_constants_built 3 4 0) \<and>
        map_option (\<lambda>f. map opcode (all_instructions (blocks f))) fopt' =
          Some [JIT_OP_MOV, JIT_OP_RETURN] \<and>
        map_option (\<lambda>f. map is_live (all_instructions (blocks f))) fopt' = Some [False, True] \<and>
        map_option next_ssa_id fopt' = Some 5) \<and>
   map opcode (all_instructions (blocks (fn_add_constants_built 3 4 0))) =
     [JIT_OP_ADD, JIT_OP_RETURN] \<and>
   map is_live (all_instructions (blocks (fn_add_constants_built 3 4 0))) = [False, False] \<and>
   next_ssa_id (fn_add_constants_built 3 4 0) = 4"
proof -
  have c: "jit_function_compile (context_after_init JIT_ARCH_RISCV64)
             (Some (fn_add_constants_built 3 4 0)) =
           (None, context_after_init JIT_ARCH_RISCV64, Some folded_add_constants)"
    by (simp add: jit_function_compile_def context_after_init_eq Let_def
        passes_fn_add_constants)
  have d: "folded_add_constants \<noteq> fn_add_constants_built 3 4 0"
    by (simp add: folded_add_constants_def fn_add_constants_built_def)
  show ?thesis
    using d by (simp add: c fn_add_constants_eq)
       (simp add: folded_add_constants_def fn_add_constants_built_def all_instructions_def)
qed

text \<open>
  C4, amended: a compilation that fails leaves the context as it was, cursor included.
  It fails in three cases only: no function, a context that is not initialised, or a
  target other than x86-64 and ARM64. In the first two the function is untouched; in the
  third it holds the IR that dead-code elimination followed by constant folding make of
  it.
\<close>

theorem failed_compile_state:
  assumes "fst (jit_function_compile ctx fopt) = None"
  shows "fst (snd (jit_function_compile ctx fopt)) = ctx \<and>
         snd (snd (jit_function_compile ctx fopt)) =
           (case fopt of
              None \<Rightarrow> None
            | Some func \<Rightarrow>
                if initialized ctx then Some (constant_folding (eliminate_dead_code func))
                else Some func) \<and>
         (fopt = None \<or> initialized ctx = False \<or> target_arch ctx = JIT_ARCH_RISCV64)"
  using assms
  by (cases fopt; cases "target_arch ctx")
     (simp_all add: jit_function_compile_def Let_def split: if_splits)

theorem failed_compile_state_witness:
  "fst (jit_function_compile (context_after_init JIT_ARCH_RISCV64)
          (Some (fn_add_constants_built 3 4 0))) = None \<and>
   fst (snd (jit_function_compile (context_after_init JIT_ARCH_RISCV64)
          (Some (fn_add_constants_built 3 4 0)))) = context_after_init JIT_ARCH_RISCV64 \<and>
   snd (snd (jit_function_compile (context_after_init JIT_ARCH_RISCV64)
          (Some (fn_add_constants_built 3 4 0)))) = Some folded_add_constants"
proof -
  have n: "fst (jit_function_compile (context_after_init JIT_ARCH_RISCV64)
          (Some (fn_add_constants_built 3 4 0))) = None"
    by (simp add: jit_function_compile_def context_after_init_eq Let_def)
  from failed_compile_state [OF n] n show ?thesis
    by (simp add: context_after_init_eq passes_fn_add_constants)
qed

text \<open>
  C5, as stated: a successful compilation runs dead-code elimination, constant folding,
  register allocation and code generation, in that order. The engine has no allocation
  step. After \<open>f(a, b) = a + b\<close> is compiled for x86-64 the Add still defines value 3,
  and the allocator record of the function is what \<^verbatim>\<open>jit_function_create\<close> wrote: no
  table of virtual registers, none counted.
\<close>

theorem compile_allocates_no_register:
  "fn_add_params 0 0 0 = Some (fn_add_params_built 0 0 0) \<and>
   (case jit_function_compile (context_after_init JIT_ARCH_X86_64)
           (Some (fn_add_params_built 0 0 0)) of
      (result, ctx', fopt') \<Rightarrow>
        result = Some 0 \<and>
        map_option (\<lambda>f. map (value_id \<circ> dest) (all_instructions (blocks f))) fopt' = Some [3, 0] \<and>
        map_option reg_allocator fopt' =
          Some \<lparr>virtual_regs = None, physical_regs = None, num_virtual_regs = 0,
                num_physical_regs = 16\<rparr> \<and>
        map_option reg_allocator fopt' = Some (reg_allocator (fn_add_params_built 0 0 0)))"
proof -
  have i: "initialized (context_after_init JIT_ARCH_X86_64)"
    and t: "target_arch (context_after_init JIT_ARCH_X86_64) = JIT_ARCH_X86_64"
    by (simp_all add: context_after_init_eq)
  show ?thesis
    by (simp add: fn_add_params_eq compile_add_step [OF i t])
       (simp add: settled_add_eq fn_add_params_built_def all_instructions_def zero_value_def
          context_after_init_eq)
qed

text \<open>
  C5, amended: a successful compilation is dead-code elimination, then constant folding,
  then the generator of the target, and nothing else: the function it leaves is the
  result of the two passes, the code at the old cursor is the generator's output for that
  function, the cursor moves on by its length, the allocator record of the function is
  untouched, and no generator reads that record. Registers are allocated only by
  \<^verbatim>\<open>jit_allocate_registers\<close> of the stand-alone compiler, on its own IR: with a counter
  that is not negative and has room to count, it gives every destination that has no
  register yet (\<open>-1\<close>) a register, each such value once; the \<open>k\<close>-th of them gets the
  register that the counter \<open>+ k\<close> selects modulo 14 from the list without \<^verbatim>\<open>RSP\<close> and
  \<^verbatim>\<open>RBP\<close>; every other value is left as it is, and the counter moves on by the number
  of registers handed out.
\<close>

theorem compile_pipeline:
  assumes "fst (jit_function_compile ctx (Some func)) \<noteq> None"
    and "0 \<le> next_reg cctx" and "block_count cctx \<le> int (length (ctx_blocks cctx))"
    and "next_reg cctx + int (length (visited_instructions cctx)) \<le> INT_MAX"
  shows "(let func2 = constant_folding (eliminate_dead_code func);
              code = (case target_arch ctx of
                        JIT_ARCH_X86_64 \<Rightarrow> codegen_x86_64 func2
                      | _ \<Rightarrow> concat (map uint32_bytes (codegen_arm64 func2)))
          in jit_function_compile ctx (Some func) =
               (Some (code_ptr ctx),
                ctx\<lparr>code_mem := write_bytes (code_mem ctx) (code_ptr ctx) code,
                    code_ptr := code_ptr ctx + length code\<rparr>,
                Some func2) \<and>
             reg_allocator func2 = reg_allocator func \<and>
             codegen_x86_64 (func2\<lparr>reg_allocator := ra\<rparr>) = codegen_x86_64 func2 \<and>
             codegen_arm64 (func2\<lparr>reg_allocator := ra\<rparr>) = codegen_arm64 func2) \<and>
         (\<exists>vals' order.
            jit_allocate_registers vals cctx =
              Some (vals', cctx\<lparr>next_reg := next_reg cctx + int (length order)\<rparr>) \<and>
            distinct order \<and>
            set order = pending vals (visited_instructions cctx) \<and>
            (\<forall>k < length order.
               vals' (order ! k) =
                 (vals (order ! k))\<lparr>data_reg := round_robin (next_reg cctx + int k)\<rparr>) \<and>
            (\<forall>p. p \<notin> set order \<longrightarrow> vals' p = vals p)) \<and>
         RSP \<notin> set available_regs \<and> RBP \<notin> set available_regs"
proof -
  have ra: "reg_allocator (constant_folding (eliminate_dead_code func)) = reg_allocator func"
    by (simp add: constant_folding_rest eliminate_dead_code_eq)
  have engine: "(let func2 = constant_folding (eliminate_dead_code func);
              code = (case target_arch ctx of
                        JIT_ARCH_X86_64 \<Rightarrow> codegen_x86_64 func2
                      | _ \<Rightarrow> concat (map uint32_bytes (codegen_arm64 func2)))
          in jit_function_compile ctx (Some func) =
               (Some (code_ptr ctx),
                ctx\<lparr>code_mem := write_bytes (code_mem ctx) (code_ptr ctx) code,
                    code_ptr := code_ptr ctx + length code\<rparr>,
                Some func2) \<and>
             reg_allocator func2 = reg_allocator func \<and>
             codegen_x86_64 (func2\<lparr>reg_allocator := ra\<rparr>) = codegen_x86_64 func2 \<and>
             codegen_arm64 (func2\<lparr>reg_allocator := ra\<rparr>) = codegen_arm64 func2)"
    using assms(1) ra
    by (cases "target_arch ctx"; cases "initialized ctx")
       (simp_all add: jit_function_compile_def Let_def codegen_x86_64_def codegen_arm64_def)
  show ?thesis
    using engine jit_allocate_registers_round_robin [OF assms(2-4), of vals]
      available_regs_exclude
    by blast
qed

text \<open>
  The theorem at \<open>f(a, b) = a + b\<close> in a fresh x86-64 context, and at the allocator
  context whose counter stands at 13: the first destination gets \<^verbatim>\<open>R15\<close>, the second
  wraps around to \<^verbatim>\<open>RAX\<close>, and the values that are only read keep \<open>-1\<close>.
\<close>

theorem compile_pipeline_witness:
  "fst (jit_function_compile (context_after_init JIT_ARCH_X86_64)
          (Some (fn_add_params_built 0 0 0))) \<noteq> None \<and>
   0 \<le> next_reg context_two_adds \<and>
   block_count context_two_adds \<le> int (length (ctx_blocks context_two_adds)) \<and>
   next_reg context_two_adds + int (length (visited_instructions context_two_adds)) \<le> INT_MAX \<and>
   jit_function_compile (context_after_init JIT_ARCH_X86_64) (Some (fn_add_params_built 0 0 0)) =
     (Some 0,
      (context_after_init JIT_ARCH_X86_64)
        \<lparr>code_mem := write_bytes (\<lambda>_. 0) 0
           [0x55, 0x48, 0x89, 0xe5, 0x48, 0x01, 0xc0, 0x48, 0x89, 0xec, 0x5d, 0xc3],
         code_ptr := 12\<rparr>,
      Some settled_add) \<and>
   map_option (\<lambda>(vals', ctx'). (map (\<lambda>p. data_reg (vals' p)) [0, 1, 2, 3], next_reg ctx'))
     (jit_allocate_registers values_unassigned context_two_adds) =
   Some ([- 1, - 1, 15, 0], 15)"
proof -
  have n: "fst (jit_function_compile (context_after_init JIT_ARCH_X86_64)
          (Some (fn_add_params_built 0 0 0))) \<noteq> None"
    by (simp add: jit_function_compile_def context_after_init_eq Let_def)
  have r: "0 \<le> next_reg context_two_adds"
    by (simp add: context_two_adds_def)
  have b: "block_count context_two_adds \<le> int (length (ctx_blocks context_two_adds))"
    by (simp add: context_two_adds_def)
  have m: "next_reg context_two_adds + int (length (visited_instructions context_two_adds))
      \<le> INT_MAX"
    by (simp add: context_two_adds_def visited_instructions_def INT_MAX_def)
  have c: "jit_function_compile (context_after_init JIT_ARCH_X86_64)
      (Some (fn_add_params_built 0 0 0)) =
     (Some 0,
      (context_after_init JIT_ARCH_X86_64)
        \<lparr>code_mem := write_bytes (\<lambda>_. 0) 0
           [0x55, 0x48, 0x89, 0xe5, 0x48, 0x01, 0xc0, 0x48, 0x89, 0xec, 0x5d, 0xc3],
         code_ptr := 12\<rparr>,
      Some settled_add)"
    using compile_pipeline [OF n r b m]
    by (simp add: Let_def passes_fn_add_params codegen_settled_add context_after_init_eq
        del: write_bytes.simps)
  show ?thesis
    using n r b m c allocate_context_two_adds by blast
qed

text \<open>
  C6, as stated: the generator encodes the registers of the operands, so that different
  registers give different encodings. The engine's IR has no register in it, and the
  generators do not read the operands of an arithmetic instruction: two additions on four
  different values are encoded by the same bytes, on both targets.
\<close>

theorem add_encoding_ignores_operands:
  "fn_two_adds = Some fn_two_adds_built \<and>
   all_instructions (blocks fn_two_adds_built) = [add_v1_v2, add_v3_v4] \<and>
   src1 add_v1_v2 \<noteq> src1 add_v3_v4 \<and> src2 add_v1_v2 \<noteq> src2 add_v3_v4 \<and>
   dest add_v1_v2 \<noteq> dest add_v3_v4 \<and>
   emit_x86_64 add_v1_v2 = emit_x86_64 add_v3_v4 \<and>
   emit_arm64 add_v1_v2 = emit_arm64 add_v3_v4 \<and>
   codegen_x86_64 fn_two_adds_built =
     [0x55, 0x48, 0x89, 0xe5, 0x48, 0x01, 0xc0, 0x48, 0x01, 0xc0] \<and>
   codegen_arm64 fn_two_adds_built = [0xa9bf7bfd, 0x910003fd, 0x8b000000, 0x8b000000]"
  by (simp add: fn_two_adds_eq)
     (simp add: fn_two_adds_built_def all_instructions_def codegen_x86_64_def codegen_arm64_def
        add_v1_v2_def add_v3_v4_def emit_x86_64_def emit_arm64_def)

text \<open>
  C6, amended: for Add, Sub and Mul the engine's generators emit one fixed encoding per
  opcode, whatever the operands: on x86-64 the REX.W forms of ADD, SUB and IMUL with
  ModR/M byte 0xC0, on ARM64 the words of ADD, SUB and MUL with every register field
  zero. The registers are encoded only by \<^verbatim>\<open>jit_emit_add_reg_reg\<close> of the stand-alone
  emitter, for ADD: with room for three bytes it writes the REX byte, 0x01 and the ModR/M
  byte of its two registers, different bytes for different pairs; \<open>add rax, rax\<close> there
  is the engine's fixed encoding of Add.
\<close>

theorem arithmetic_encodings:
  assumes "length (code_buffer ectx) = CODE_BUFFER_SIZE"
    and "code_size ectx + 3 \<le> CODE_BUFFER_SIZE"
  shows "emit_x86_64 (inst\<lparr>opcode := JIT_OP_ADD\<rparr>) = [0x48, 0x01, 0xc0] \<and>
         emit_x86_64 (inst\<lparr>opcode := JIT_OP_SUB\<rparr>) = [0x48, 0x29, 0xc0] \<and>
         emit_x86_64 (inst\<lparr>opcode := JIT_OP_MUL\<rparr>) = [0x48, 0x0f, 0xaf, 0xc0] \<and>
         emit_arm64 (inst\<lparr>opcode := JIT_OP_ADD\<rparr>) = [0x8b000000] \<and>
         emit_arm64 (inst\<lparr>opcode := JIT_OP_SUB\<rparr>) = [0xcb000000] \<and>
         emit_arm64 (inst\<lparr>opcode := JIT_OP_MUL\<rparr>) = [0x9b007c00] \<and>
         emitted ectx (jit_emit_add_reg_reg ectx dst src) =
           [ucast (0x48 OR (drop_bit 3 (x86_register_value dst) AND 1) OR
                   push_bit 2 (drop_bit 3 (x86_register_value src) AND 1)),
            0x01,
            ucast (0xC0 OR push_bit 3 (x86_register_value src AND 7) OR
                   (x86_register_value dst AND 7))] \<and>
         (emitted ectx (jit_emit_add_reg_reg ectx dst src) =
            emitted ectx (jit_emit_add_reg_reg ectx dst' src') \<longleftrightarrow>
          dst = dst' \<and> src = src') \<and>
         emitted ectx (jit_emit_add_reg_reg ectx RAX RAX) = emit_x86_64 (inst\<lparr>opcode := JIT_OP_ADD\<rparr>)"
proof -
  have e: "\<And>d s. emitted ectx (jit_emit_add_reg_reg ectx d s) = add_reg_reg_bytes d s"
    by (rule emitted_add_reg_reg [OF assms])
  have r: "add_reg_reg_bytes RAX RAX = [0x48, 0x01, 0xc0]"
    by (simp add: add_reg_reg_bytes_def)
  show ?thesis
    unfolding e add_reg_reg_bytes_inj r
    by (simp add: emit_x86_64_def emit_arm64_def add_reg_reg_bytes_def)
qed

theorem arithmetic_encodings_witness:
  "length (code_buffer jit_create_context) = CODE_BUFFER_SIZE \<and>
   code_size jit_create_context + 3 \<le> CODE_BUFFER_SIZE \<and>
   emit_x86_64 add_v1_v2 = [0x48, 0x01, 0xc0] \<and>
   emit_arm64 add_v1_v2 = [0x8b000000] \<and>
   emitted jit_create_context (jit_emit_add_reg_reg jit_create_context RAX RSI) = [0x48, 0x01, 0xf0] \<and>
   emitted jit_create_context (jit_emit_add_reg_reg jit_create_context R9 RDI) = [0x49, 0x01, 0xf9] \<and>
   emitted jit_create_context (jit_emit_add_reg_reg jit_create_context RAX RSI) \<noteq>
     emitted jit_create_context (jit_emit_add_reg_reg jit_create_context R9 RDI)"
proof -
  have l: "length (code_buffer jit_create_context) = CODE_BUFFER_SIZE"
    by (simp add: jit_create_context_def)
  have s: "code_size jit_create_context + 3 \<le> CODE_BUFFER_SIZE"
    by (simp add: jit_create_context_def CODE_BUFFER_SIZE_def)
  have o: "add_v1_v2\<lparr>opcode := JIT_OP_ADD\<rparr> = add_v1_v2"
    by (simp add: add_v1_v2_def)
  from arithmetic_encodings [OF l s, of add_v1_v2 RAX RSI R9 RDI]
    arithmetic_encodings [OF l s, of add_v1_v2 R9 RDI R9 RDI]
  show ?thesis
    using l s by (simp add: o)
qed

text \<open>
  C7, as stated: after the folding pass of one compilation of \<open>f() = (3 + 4) * 2\<close> the
  single surviving instruction is a Mov, one level being folded per compilation. The
  function has three instructions after the pass as before it, and a second compilation
  folds nothing more.
\<close>

theorem folding_leaves_three_instructions:
  "fn_3_plus_4_times_2 0 0 = Some (fn_3_plus_4_times_2_built 0 0) \<and>
   (case jit_function_compile (context_after_init JIT_ARCH_X86_64)
           (Some (fn_3_plus_4_times_2_built 0 0)) of
      (result, ctx', fopt') \<Rightarrow>
        result = Some 0 \<and>
        map_option (\<lambda>f. map opcode (all_instructions (blocks f))) fopt' =
          Some [JIT_OP_MOV, JIT_OP_MUL, JIT_OP_RETURN] \<and>
        (case jit_function_compile ctx' fopt' of
           (result', ctx'', fopt'') \<Rightarrow>
             result' = Some 23 \<and>
             map_option (\<lambda>f. map opcode (all_instructions (blocks f))) fopt'' =
               Some [JIT_OP_MOV, JIT_OP_MUL, JIT_OP_RETURN]))"
proof -
  have ops: "map opcode (all_instructions (blocks (folded_3_plus_4_times_2 0 0))) =
      [JIT_OP_MOV, JIT_OP_MUL, JIT_OP_RETURN]"
    by (simp add: folded_3_plus_4_times_2_def all_instructions_def)
  have len: "length (codegen_x86_64 (folded_3_plus_4_times_2 0 0)) = 23"
    by (simp add: folded_3_plus_4_times_2_def codegen_x86_64_def emit_x86_64_def
        int64_bytes_def)
  show ?thesis
    by (simp add: fn_3_plus_4_times_2_eq jit_function_compile_def context_after_init_eq
        Let_def passes_fn_3_plus_4_times_2 passes_folded_3_plus_4_times_2 ops len)
qed

text \<open>
  C7, amended: one compilation of \<open>f() = (3 + 4) * 2\<close> folds exactly the Add, which
  becomes a Mov of the new constant 7. No instruction is removed: the Mul follows,
  unchanged and unfolded, because its left operand is a copy of the Add's destination
  and that is not a constant; then the Return, now live. Folding again changes nothing.
\<close>

theorem folding_one_level:
  "fn_3_plus_4_times_2 u1 u2 = Some (fn_3_plus_4_times_2_built u1 u2) \<and>
   snd (snd (jit_function_compile (context_after_init JIT_ARCH_X86_64)
      (Some (fn_3_plus_4_times_2_built u1 u2)))) =
     Some (constant_folding (eliminate_dead_code (fn_3_plus_4_times_2_built u1 u2))) \<and>
   (let before = all_instructions (blocks (fn_3_plus_4_times_2_built u1 u2));
        after = all_instructions (blocks
                  (constant_folding (eliminate_dead_code (fn_3_plus_4_times_2_built u1 u2))))
    in map opcode before = [JIT_OP_ADD, JIT_OP_MUL, JIT_OP_RETURN] \<and>
       map opcode after = [JIT_OP_MOV, JIT_OP_MUL, JIT_OP_RETURN] \<and>
       src1 (after ! 0) =
         \<lparr>value_id = 6, value_type = JIT_TYPE_INT64, is_constant = True, constant_value = 7\<rparr> \<and>
       dest (after ! 0) = dest (before ! 0) \<and>
       after ! 1 = before ! 1 \<and>
       src1 (after ! 1) = dest (after ! 0) \<and>
       is_constant (src1 (after ! 1)) = False \<and>
       after ! 2 = (before ! 2)\<lparr>is_live := True\<rparr>) \<and>
   constant_folding (constant_folding (eliminate_dead_code (fn_3_plus_4_times_2_built u1 u2))) =
     constant_folding (eliminate_dead_code (fn_3_plus_4_times_2_built u1 u2))"
proof -
  have cf: "constant_folding (folded_3_plus_4_times_2 u1 u2) = folded_3_plus_4_times_2 u1 u2"
    by (simp add: folded_3_plus_4_times_2_def zero_value_def
      constant_folding_def fold_instruction_def)
  show ?thesis
    by (simp add: fn_3_plus_4_times_2_eq passes_fn_3_plus_4_times_2 cf
        jit_function_compile_def context_after_init_eq Let_def)
       (simp add: folded_3_plus_4_times_2_def fn_3_plus_4_times_2_built_def
        all_instructions_def)
qed

text \<open>
  C8, as stated: the passes keep the shape of the IR, and code generation emits code for
  every instruction, live or not. The last part fails where an opcode has no case in the
  generator: the function that only stores has one instruction, dead-code elimination
  marks it live, and both generators emit their prologue and nothing else.
\<close>

theorem store_emits_no_code:
  "fn_store 0 0 = Some (fn_store_built 0 0) \<and>
   (let func' = constant_folding (eliminate_dead_code (fn_store_built 0 0))
    in map opcode (all_instructions (blocks func')) = [JIT_OP_STORE] \<and>
       map is_live (all_instructions (blocks func')) = [True] \<and>
       codegen_x86_64 func' = [0x55, 0x48, 0x89, 0xe5] \<and>
       codegen_arm64 func' = [0xa9bf7bfd, 0x910003fd])"
  by (simp add: fn_store_eq eliminate_dead_code_eq sweep_blocks_def mark_live_def
      fn_store_built_def Let_def constant_folding_def fold_instruction_def zero_value_def
      all_instructions_def codegen_x86_64_def codegen_arm64_def emit_x86_64_def emit_arm64_def)

text \<open>
  C8, amended. Dead-code elimination changes nothing but liveness flags, and only sets
  them (\<open>mark_live\<close>). Constant folding changes, of the function, only the SSA counter
  and, of an instruction, only the opcode and the two operands: blocks and instructions
  stay where they are, as many as they were. Each generator walks every instruction of
  every block in program order and emits what the case of its opcode says, without
  reading the liveness flag, so the code is the same before and after dead-code
  elimination; an instruction whose opcode has no case (Div, Load, Store, Branch,
  BranchIf, Call, and on ARM64 also Mov) is visited and emits nothing.
\<close>

theorem passes_keep_structure:
  "eliminate_dead_code func =
     func\<lparr>blocks := map (\<lambda>block. block\<lparr>instructions := map mark_live (instructions block)\<rparr>)
                       (blocks func)\<rparr> \<and>
   (constant_folding func)\<lparr>blocks := [], next_ssa_id := 0\<rparr> =
     func\<lparr>blocks := [], next_ssa_id := 0\<rparr> \<and>
   map (\<lambda>block. block\<lparr>instructions := map operands_erased (instructions block)\<rparr>)
     (blocks (constant_folding func)) =
   map (\<lambda>block. block\<lparr>instructions := map operands_erased (instructions block)\<rparr>)
     (blocks func) \<and>
   codegen_x86_64 func =
     [0x55, 0x48, 0x89, 0xe5] @ concat (map emit_x86_64 (all_instructions (blocks func))) \<and>
   codegen_arm64 func =
     [0xa9bf7bfd, 0x910003fd] @ concat (map emit_arm64 (all_instructions (blocks func))) \<and>
   emit_x86_64 (inst\<lparr>is_live := l\<rparr>) = emit_x86_64 inst \<and>
   emit_arm64 (inst\<lparr>is_live := l\<rparr>) = emit_arm64 inst \<and>
   codegen_x86_64 (eliminate_dead_code func) = codegen_x86_64 func \<and>
   codegen_arm64 (eliminate_dead_code func) = codegen_arm64 func \<and>
   (emit_x86_64 inst = [] \<longleftrightarrow>
      opcode inst \<in> {JIT_OP_DIV, JIT_OP_LOAD, JIT_OP_STORE, JIT_OP_BRANCH, JIT_OP_BRANCH_IF,
                      JIT_OP_CALL}) \<and>
   (emit_arm64 inst = [] \<longleftrightarrow>
      opcode inst \<in> {JIT_OP_DIV, JIT_OP_MOV, JIT_OP_LOAD, JIT_OP_STORE, JIT_OP_BRANCH,
                      JIT_OP_BRANCH_IF, JIT_OP_CALL})"
proof -
  have dce: "eliminate_dead_code func =
     func\<lparr>blocks := map (\<lambda>block. block\<lparr>instructions := map mark_live (instructions block)\<rparr>)
                       (blocks func)\<rparr>"
    by (simp add: eliminate_dead_code_eq sweep_blocks_def)
  have cf1: "(constant_folding func)\<lparr>blocks := [], next_ssa_id := 0\<rparr> =
             func\<lparr>blocks := [], next_ssa_id := 0\<rparr>"
    by (simp add: constant_folding_rest)
  have cf2: "map (\<lambda>block. block\<lparr>instructions := map operands_erased (instructions block)\<rparr>)
       (blocks (constant_folding func)) =
     map (\<lambda>block. block\<lparr>instructions := map operands_erased (instructions block)\<rparr>)
       (blocks func)"
    by (simp add: blocks_constant_folding fold_blocks_erased)
  show ?thesis
    using dce cf1 cf2 codegen_x86_64_all [of func] codegen_arm64_all [of func]
      codegen_x86_64_dce [of func] codegen_arm64_dce [of func]
      emit_x86_64_nothing [of inst] emit_arm64_nothing [of inst]
    by (simp only: emit_x86_64_is_live emit_arm64_is_live simp_thms)
qed

text \<open>
  C9, as stated: \<^verbatim>\<open>jit_insn_load\<close> returns a fresh value, not constant and of type Ptr,
  whatever the address operand is. Type and constancy hold; freshness does not. The id
  is drawn from the function's \<^verbatim>\<open>uint32_t\<close> SSA counter, which starts at 1 and wraps:
  in the first function of a process, after 4294967296 calls of \<^verbatim>\<open>jit_value_create\<close>
  the counter is 1 again, and the Load gets id 1, the id of the first value created.
\<close>

theorem jit_insn_load_repeats_id:
  "new_function JIT_ARCH_X86_64 = Some first_function \<and>
   (case created_value_ids (replicate 4294967296 (Call_jit_value_create JIT_TYPE_INT64 0))
           first_function of
      None \<Rightarrow> False
    | Some (ids, func') \<Rightarrow>
        length ids = 4294967296 \<and> ids ! 0 = 1 \<and>
        map_option (\<lambda>(result, func''). (value_id result, value_type result))
          (jit_insn_load func'
             \<lparr>value_id = 1, value_type = JIT_TYPE_INT64, is_constant = False,
               constant_value = 0\<rparr> 0) =
        Some (1, JIT_TYPE_PTR))"
proof -
  obtain ids where
    r: "created_value_ids (replicate 4294967296 (Call_jit_value_create JIT_TYPE_INT64 0))
          first_function = Some (ids, bump_ssa 4294967296 first_function)"
    and l: "length ids = 4294967296"
    using created_value_ids_replicate [of 4294967296 JIT_TYPE_INT64 0 first_function] by blast
  have c: "consecutive_from (next_ssa_id first_function) ids"
    using created_value_ids_consecutive [OF r] by simp
  have "0 < length ids"
    using l by simp
  then have "ids ! 0 = next_ssa_id first_function + of_nat 0"
    using c consecutive_from_nth by blast
  then have i: "ids ! 0 = 1"
    by (simp add: first_function_def)
  have j: "map_option (\<lambda>(result, func''). (value_id result, value_type result))
          (jit_insn_load (bump_ssa 4294967296 first_function)
             \<lparr>value_id = 1, value_type = JIT_TYPE_INT64, is_constant = False,
               constant_value = 0\<rparr> 0) =
        Some (1, JIT_TYPE_PTR)"
    by (simp add: bump_ssa_def first_function_def jit_insn_load_def jit_value_create_def
        add_instruction_def calloc_instruction_def Let_def)
  show ?thesis
    unfolding r using i j l by (simp add: new_function_first)
qed

text \<open>
  C9, amended: after any run of builder calls and passes on a function,
  \<^verbatim>\<open>jit_insn_load\<close> returns (for every cursor that stands on a block; on a cursor that
  stands on none the C dereferences it and returns nothing) a value that is not constant
  and of type Ptr, whatever the address operand and its type are, whose id is the value
  of the function's SSA counter, and appends the Load that defines it. As long as the
  counter has not wrapped in the run, that id differs from the id of every value the run
  created.
\<close>

theorem jit_insn_load_fresh_ptr:
  assumes "created_value_ids calls func = Some (ids, func')"
    and "unat (next_ssa_id func) + length ids < 2 ^ 32"
  shows "(case jit_insn_load func' address uninit of
            None \<Rightarrow> length (blocks func') \<le> current_block func'
          | Some (result, func'') \<Rightarrow>
              current_block func' < length (blocks func') \<and>
              result = \<lparr>value_id = next_ssa_id func + of_nat (length ids),
                         value_type = JIT_TYPE_PTR, is_constant = False,
                         constant_value = uninit\<rparr> \<and>
              value_id result \<notin> set ids \<and>
              next_ssa_id func'' = next_ssa_id func' + 1 \<and>
              instructions (blocks func'' ! current_block func') =
                instructions (blocks func' ! current_block func') @
                [\<lparr>opcode = JIT_OP_LOAD, dest = result, src1 = address, src2 = zero_value,
                  target_block = None, else_block = None, is_live = False\<rparr>])"
proof -
  from created_value_ids_consecutive [OF assms(1)]
  have c: "consecutive_from (next_ssa_id func) ids"
    and n: "next_ssa_id func' = next_ssa_id func + of_nat (length ids)"
    by simp_all
  have f: "next_ssa_id func' \<notin> set ids"
    unfolding n by (rule consecutive_from_fresh [OF c assms(2)])
  show ?thesis
    using f
    by (simp add: jit_insn_load_def jit_value_create_def add_instruction_def
        calloc_instruction_def Let_def n)
qed

text \<open>
  The theorem at the first function of a process, after the run that builds and folds
  \<open>3.0 + 4\<close>, with the Float64 result of the Add as the address.
\<close>

theorem jit_insn_load_fresh_ptr_witness:
  "new_function JIT_ARCH_X86_64 = Some first_function \<and>
   (case created_value_ids calls_fold_3_plus_4 first_function of
      None \<Rightarrow> False
    | Some (ids, func') \<Rightarrow>
        ids = [1, 2, 3, 4] \<and>
        unat (next_ssa_id first_function) + length ids < 2 ^ 32 \<and>
        map_option fst (jit_insn_load func'
          \<lparr>value_id = 3, value_type = JIT_TYPE_FLOAT64, is_constant = False, constant_value = 0\<rparr>
          77) =
        Some \<lparr>value_id = 5, value_type = JIT_TYPE_PTR, is_constant = False,
              constant_value = 77\<rparr>)"
proof -
  obtain ids func' where r: "created_value_ids calls_fold_3_plus_4 first_function = Some (ids, func')"
    using created_value_ids_fold_3_plus_4 by (cases "created_value_ids calls_fold_3_plus_4 first_function") auto
  have i: "ids = [1, 2, 3, 4]"
    using created_value_ids_fold_3_plus_4 by (simp add: r)
  have b: "unat (next_ssa_id first_function) + length ids < 2 ^ 32"
    by (simp add: i first_function_def)
  have c: "current_block func' < length (blocks func')"
    using r by (simp add: calls_fold_3_plus_4_def first_function_def jit_value_create_constant_def
      jit_value_create_def jit_insn_add_def add_instruction_def calloc_instruction_def Let_def
      eliminate_dead_code_eq sweep_blocks_def constant_folding_rest split_beta) auto
  from jit_insn_load_fresh_ptr [OF r b, where address = "\<lparr>value_id = 3,
      value_type = JIT_TYPE_FLOAT64, is_constant = False, constant_value = 0\<rparr>" and uninit = 77] c
  have "map_option fst (jit_insn_load func'
          \<lparr>value_id = 3, value_type = JIT_TYPE_FLOAT64, is_constant = False, constant_value = 0\<rparr>
          77) =
        Some \<lparr>value_id = 5, value_type = JIT_TYPE_PTR, is_constant = False,
              constant_value = 77\<rparr>"
    by (auto simp: i first_function_def split: option.splits)
  then show ?thesis
    using i b by (simp add: new_function_first r)
qed

text \<open>
  C10, as stated: every block creation returns an id greater than every id returned
  before, so ids are unique in the process. The counter is a \<^verbatim>\<open>uint32_t\<close>: the
  4294967297th block of a process gets id 0, the id of the first.
\<close>

theorem block_ids_repeat_after_wrap:
  "length (created_block_ids (replicate 4294967297 (Call_jit_block_create True)) process_start) =
     4294967297 \<and>
   created_block_ids (replicate 4294967297 (Call_jit_block_create True)) process_start ! 0 = 0 \<and>
   created_block_ids (replicate 4294967297 (Call_jit_block_create True)) process_start !
     4294967296 = 0"
proof -
  let ?ids = "created_block_ids (replicate 4294967297 (Call_jit_block_create True)) process_start"
  have len: "length ?ids = 4294967297"
    by (rule created_block_ids_replicate)
  have c: "block_id_counter process_start = 0"
    by (simp add: process_start_def)
  have z: "(0::nat) < length ?ids" and l: "(4294967296::nat) < length ?ids"
    by (simp_all only: len)
  have "?ids ! 0 = 0"
    using nth_created_block_ids [OF z] c by simp
  moreover have "?ids ! 4294967296 = 0"
    using nth_created_block_ids [OF l] c by simp
  ultimately show ?thesis using len by blast
qed

text \<open>
  C10, amended: block ids come from one counter of the process, which every successful
  creation of a block reads and advances, the entry block of a function included and
  whatever context is initialised in between: the \<open>j\<close>-th block created has the id
  counter \<open>+ j\<close>. As long as the counter has not wrapped (fewer than \<open>2^32\<close> blocks
  created), each id is greater than every earlier one, so the ids are unique.
\<close>

theorem block_ids_increase_until_wrap:
  assumes "unat (block_id_counter g) + length (created_block_ids calls g) \<le> 2 ^ 32"
    and "i < j" and "j < length (created_block_ids calls g)"
  shows "created_block_ids calls g ! i < created_block_ids calls g ! j \<and>
         created_block_ids calls g ! j = block_id_counter g + of_nat j"
proof -
  let ?c = "block_id_counter g"
  have i: "i < length (created_block_ids calls g)" using assms by simp
  have bj: "unat ?c + j < 2 ^ 32" and bi: "unat ?c + i < 2 ^ 32"
    using assms by simp_all
  have uj: "unat (?c + of_nat j) = unat ?c + j"
    using bj by (simp add: unat_word_ariths unat_of_nat take_bit_eq_mod)
  have ui: "unat (?c + of_nat i) = unat ?c + i"
    using bi by (simp add: unat_word_ariths unat_of_nat take_bit_eq_mod)
  have "?c + of_nat i < ?c + of_nat j"
    using ui uj assms(2) by (simp add: word_less_nat_alt)
  then show ?thesis
    by (simp add: nth_created_block_ids [OF i] nth_created_block_ids [OF assms(3)])
qed

text \<open>A run that initialises twice and creates a function, a block and a function.\<close>

theorem block_ids_increase_until_wrap_witness:
  "created_block_ids
     [Call_jit_init JIT_ARCH_X86_64 True, Call_jit_function_create True True,
      Call_jit_block_create True, Call_jit_init JIT_ARCH_ARM64 True,
      Call_jit_function_create True True] process_start = [0, 1, 2] \<and>
   unat (block_id_counter process_start) + 3 \<le> 2 ^ 32 \<and>
   created_block_ids
     [Call_jit_init JIT_ARCH_X86_64 True, Call_jit_function_create True True,
      Call_jit_block_create True, Call_jit_init JIT_ARCH_ARM64 True,
      Call_jit_function_create True True] process_start ! 0 <
   created_block_ids
     [Call_jit_init JIT_ARCH_X86_64 True, Call_jit_function_create True True,
      Call_jit_block_create True, Call_jit_init JIT_ARCH_ARM64 True,
      Call_jit_function_create True True] process_start ! 2"
proof -
  let ?calls = "[Call_jit_init JIT_ARCH_X86_64 True, Call_jit_function_create True True,
      Call_jit_block_create True, Call_jit_init JIT_ARCH_ARM64 True,
      Call_jit_function_create True True]"
  have ids: "created_block_ids ?calls process_start = [0, 1, 2]"
    by (simp add: jit_init_def jit_function_create_def jit_block_create_def process_start_def
        Let_def supported_archs_def)
  have b: "unat (block_id_counter process_start) + length (created_block_ids ?calls process_start)
      \<le> 2 ^ 32"
    unfolding ids by (simp add: process_start_def)
  have j: "2 < length (created_block_ids ?calls process_start)"
    unfolding ids by simp
  have i: "(0::nat) < 2"
    by simp
  have lt: "created_block_ids ?calls process_start ! 0 < created_block_ids ?calls process_start ! 2"
    using block_ids_increase_until_wrap [OF b i j] by blast
  show ?thesis
    using lt unfolding ids by (simp add: process_start_def)
qed

end
